theory Spec2Isabelle
  imports Main "HOL-Library.Word"
begin

section \<open>Data model of the block coordinator\<close>

text \<open>
  The coordinator is the class \<open>BlockCoordinator\<close> of the ledger library. Its state handlers
  are embedded one by one, in the order of the source. Logging, the periodic gates that only
  rate-limit logging, and the telemetry counters are left out: no handler reads them back.
\<close>

type_synonym ConstByteArray = "8 word list"
type_synonym Digest = ConstByteArray
type_synonym Identity = ConstByteArray
type_synonym DAGEpoch = ConstByteArray

text \<open>Time points and durations are counted in milliseconds.\<close>

type_synonym Timepoint = nat

text \<open>
  Modelled from the spec: the proof of a block, declared outside the coordinator, is
  ``a proof with a mutable difficulty target''; \<open>SetTarget\<close> stores the target.
\<close>

record Proof =
  target :: "64 word"

definition SetTarget :: "64 word \<Rightarrow> Proof \<Rightarrow> Proof" where
  "SetTarget t p = p\<lparr>target := t\<rparr>"

text \<open>
  The block body. A slice is the sequence of its transactions; the coordinator reads only the
  digest of a transaction, so a transaction is represented by its digest.
\<close>

record Body =
  hash :: Digest
  previous_hash :: Digest
  merkle_hash :: Digest
  block_number :: "64 word"
  miner :: Identity
  log2_num_lanes :: "32 word"
  slices :: "Digest list list"
  dag_epoch :: DAGEpoch

record Block =
  body :: Body
  weight :: "64 word"
  block_proof :: Proof

datatype State =
    RELOAD_STATE
  | SYNCHRONISING
  | SYNCHRONISED
  | PRE_EXEC_BLOCK_VALIDATION
  | WAIT_FOR_TRANSACTIONS
  | SYNERGETIC_EXECUTION
  | SCHEDULE_BLOCK_EXECUTION
  | WAIT_FOR_EXECUTION
  | POST_EXEC_BLOCK_VALIDATION
  | PACK_NEW_BLOCK
  | NEW_SYNERGETIC_EXECUTION
  | EXECUTE_NEW_BLOCK
  | WAIT_FOR_NEW_BLOCK_EXECUTION
  | PROOF_SEARCH
  | TRANSMIT_BLOCK
  | RESET

text \<open>\<open>ExecutionManagerInterface::State\<close>, the raw state of the execution engine.\<close>

datatype ExecutionState =
    ExecutionState_IDLE
  | ExecutionState_ACTIVE
  | ExecutionState_TRANSACTIONS_UNAVAILABLE
  | ExecutionState_EXECUTION_ABORTED
  | ExecutionState_EXECUTION_FAILED

text \<open>\<open>BlockCoordinator::ExecutionStatus\<close>, the coordinator's simplified view.\<close>

datatype ExecutionStatus =
    ExecutionStatus_IDLE
  | ExecutionStatus_RUNNING
  | ExecutionStatus_STALLED
  | ExecutionStatus_ERROR

text \<open>
  The enumerations of the collaborators are declared outside the coordinator; the handlers
  compare against one enumerator of each only, so the others are kept apart by a number.
\<close>

datatype ScheduleStatus = SCHEDULED | ScheduleStatus_other nat

datatype BlockStatus = ADDED | ALREADY_PRESENT | REJECTED

datatype SynExecStatus = SUCCESS | SynExecStatus_other nat

datatype TransactionStatus = EXECUTED

datatype BehaviourWhenLimit = RETURN_LEAST_RECENT | RETURN_MOST_RECENT

text \<open>A call inside a \<open>try\<close> block either returns or throws a \<open>std::exception\<close>.\<close>

datatype 'a Outcome = Returns 'a | Throws

text \<open>
  What the C++ leaves undefined is an error value of the model: a dereferenced null pointer,
  a failed \<open>assert\<close>, and a shift of a 32-bit integer by 32 or more.
\<close>

datatype error = NullDereference | AssertionFailed | UndefinedShift

subsection \<open>Constants of the source\<close>

definition WAIT_BEFORE_ASKING_FOR_MISSING_TX_INTERVAL :: nat where
  "WAIT_BEFORE_ASKING_FOR_MISSING_TX_INTERVAL = 30000"

definition WAIT_FOR_TX_TIMEOUT_INTERVAL :: nat where
  "WAIT_FOR_TX_TIMEOUT_INTERVAL = 30000"

definition THRESHOLD_FOR_FAST_SYNCING :: nat where
  "THRESHOLD_FOR_FAST_SYNCING = 100"


subsection \<open>Execution status mapping\<close>

text \<open>
  \<open>QueryExecutorStatus\<close> reads \<open>execution_manager_.GetState()\<close> and maps it; the mapping is
  the \<open>switch\<close> of the source, given here on the state read.
\<close>

fun QueryExecutorStatus_of :: "ExecutionState \<Rightarrow> ExecutionStatus" where
  "QueryExecutorStatus_of ExecutionState_IDLE = ExecutionStatus_IDLE"
| "QueryExecutorStatus_of ExecutionState_ACTIVE = ExecutionStatus_RUNNING"
| "QueryExecutorStatus_of ExecutionState_TRANSACTIONS_UNAVAILABLE = ExecutionStatus_STALLED"
| "QueryExecutorStatus_of ExecutionState_EXECUTION_ABORTED = ExecutionStatus_ERROR"
| "QueryExecutorStatus_of ExecutionState_EXECUTION_FAILED = ExecutionStatus_ERROR"


section \<open>The collaborators\<close>

text \<open>
  The main chain, the storage unit, the execution manager, the DAG, the stake manager, the
  synergetic execution manager, the block packer, the block sink, the status cache, the miner
  and the clock are handed to the coordinator by reference and are declared outside it. They are
  parameters of the model: \<open>'w\<close> is the joint state of all of them, a query reads it, and a
  call that acts on a collaborator returns the new joint state beside its result. Calls whose
  name is a question (\<open>Get\<close>, \<open>Has\<close>, \<open>Last\<close>, \<open>Current\<close>, \<open>Should\<close>, \<open>Valid\<close>) are
  queries. Of the calls inside a \<open>try\<close> block, the packer's \<open>GenerateBlock\<close> and the chain's
  \<open>AddBlock\<close> may throw.

  The constants \<open>GENESIS_DIGEST\<close>, \<open>GENESIS_MERKLE_ROOT\<close> and
  \<open>COMMON_PATH_TO_ANCESTOR_LENGTH_LIMIT\<close>, the default-constructed \<open>Block\<close> and
  \<open>Block::UpdateDigest\<close> are declared outside the coordinator as well, and are parameters too.
\<close>

record 'w Collaborators =
  GENESIS_DIGEST :: Digest
  GENESIS_MERKLE_ROOT :: Digest
  COMMON_PATH_TO_ANCESTOR_LENGTH_LIMIT :: "64 word"
  Block_default :: Block
  UpdateDigest :: "Block \<Rightarrow> Block"
  Clock_now :: "'w \<Rightarrow> Timepoint"
  chain_GetHeaviestBlock :: "'w \<Rightarrow> Block option"
  chain_GetHeaviestBlockHash :: "'w \<Rightarrow> Digest"
  chain_GetBlock :: "Digest \<Rightarrow> 'w \<Rightarrow> Block option"
  chain_GetPathToCommonAncestor ::
    "Digest \<Rightarrow> Digest \<Rightarrow> 64 word \<Rightarrow> BehaviourWhenLimit \<Rightarrow> 'w \<Rightarrow> bool \<times> Block list"
  chain_RemoveBlock :: "Digest \<Rightarrow> 'w \<Rightarrow> 'w"
  chain_AddBlock :: "Block \<Rightarrow> 'w \<Rightarrow> BlockStatus Outcome \<times> 'w"
  chain_Reset :: "'w \<Rightarrow> 'w"
  storage_LastCommitHash :: "'w \<Rightarrow> Digest"
  storage_CurrentHash :: "'w \<Rightarrow> Digest"
  storage_HashExists :: "Digest \<Rightarrow> 64 word \<Rightarrow> 'w \<Rightarrow> bool"
  storage_RevertToHash :: "Digest \<Rightarrow> 64 word \<Rightarrow> 'w \<Rightarrow> bool \<times> 'w"
  storage_Commit :: "64 word \<Rightarrow> 'w \<Rightarrow> 'w"
  storage_HasTransaction :: "Digest \<Rightarrow> 'w \<Rightarrow> bool"
  storage_IssueCallForMissingTxs :: "Digest set \<Rightarrow> 'w \<Rightarrow> 'w"
  execution_LastProcessedBlock :: "'w \<Rightarrow> Digest"
  execution_SetLastProcessedBlock :: "Digest \<Rightarrow> 'w \<Rightarrow> 'w"
  execution_Execute :: "Body \<Rightarrow> 'w \<Rightarrow> ScheduleStatus \<times> 'w"
  execution_GetState :: "'w \<Rightarrow> ExecutionState"
  dag_CurrentEpoch :: "'w \<Rightarrow> 64 word"
  dag_RevertToEpoch :: "64 word \<Rightarrow> 'w \<Rightarrow> bool \<times> 'w"
  dag_CreateEpoch :: "64 word \<Rightarrow> 'w \<Rightarrow> DAGEpoch \<times> 'w"
  dag_SatisfyEpoch :: "DAGEpoch \<Rightarrow> 'w \<Rightarrow> bool \<times> 'w"
  dag_CommitEpoch :: "DAGEpoch \<Rightarrow> 'w \<Rightarrow> 'w"
  stake_ShouldGenerateBlock :: "Block \<Rightarrow> Identity \<Rightarrow> 'w \<Rightarrow> bool"
  stake_ValidMinerForBlock :: "Block \<Rightarrow> Identity \<Rightarrow> 'w \<Rightarrow> bool"
  stake_GetBlockGenerationWeight :: "Block \<Rightarrow> Identity \<Rightarrow> 'w \<Rightarrow> 64 word"
  stake_UpdateCurrentBlock :: "Block \<Rightarrow> 'w \<Rightarrow> 'w"
  synergetic_PrepareWorkQueue :: "Block \<Rightarrow> Block \<Rightarrow> 'w \<Rightarrow> SynExecStatus \<times> 'w"
  synergetic_ValidateWorkAndUpdateState :: "64 word \<Rightarrow> 64 word \<Rightarrow> 'w \<Rightarrow> bool \<times> 'w"
  packer_GenerateBlock :: "Block \<Rightarrow> 64 word \<Rightarrow> 64 word \<Rightarrow> 'w \<Rightarrow> unit Outcome \<times> Block \<times> 'w"
  sink_OnBlock :: "Block \<Rightarrow> 'w \<Rightarrow> 'w"
  status_cache_Update :: "Digest \<Rightarrow> TransactionStatus \<Rightarrow> 'w \<Rightarrow> 'w"
  miner_Mine :: "Block \<Rightarrow> nat \<Rightarrow> 'w \<Rightarrow> bool \<times> Block \<times> 'w"

section \<open>The coordinator\<close>

text \<open>
  Modelled from the spec: the deadline timer is declared outside the coordinator; it is a
  one-shot countdown, restarted with a period from the current time, whose expiry is observed
  by asking it.
\<close>

type_synonym DeadlineTimer = Timepoint

definition Restart :: "nat \<Rightarrow> Timepoint \<Rightarrow> DeadlineTimer" where
  "Restart period now = now + period"

definition HasExpired :: "DeadlineTimer \<Rightarrow> Timepoint \<Rightarrow> bool" where
  "HasExpired deadline now \<longleftrightarrow> deadline \<le> now"

text \<open>
  The fields of \<open>BlockCoordinator\<close> that the handlers read or write. The three optional
  collaborators are pointers that may be null: \<open>dag\<close>, \<open>stake\<close> and
  \<open>synergetic_exec_mgr\<close> say whether the pointer is set. The fields carry the names of the
  source without its trailing underscore.
\<close>

record BlockCoordinator =
  dag :: bool
  stake :: bool
  synergetic_exec_mgr :: bool
  last_executed_block :: Digest
  mining_address :: Identity
  block_difficulty :: "64 word"
  num_lanes :: "64 word"
  num_slices :: "64 word"
  mining :: bool
  mining_enabled :: bool
  block_period :: nat
  next_block_time :: Timepoint
  current_block :: "Block option"
  next_block :: "Block option"
  pending_txs :: "Digest set option"
  blocks_to_common_ancestor :: "Block list"
  have_asked_for_missing_txs :: bool
  wait_for_tx_timeout :: DeadlineTimer
  wait_before_asking_for_missing_tx :: DeadlineTimer

text \<open>
  What a handler leaves behind: the state it returns, the coordinator, the collaborators, and
  the delay it asked the state machine for, if any.
\<close>

record 'w Step =
  state :: State
  self :: BlockCoordinator
  world :: 'w
  delay :: "nat option"

definition QueryExecutorStatus :: "'w Collaborators \<Rightarrow> 'w \<Rightarrow> ExecutionStatus" where
  "QueryExecutorStatus K w = QueryExecutorStatus_of (execution_GetState K w)"


abbreviation Next :: "State \<Rightarrow> BlockCoordinator \<Rightarrow> 'w \<Rightarrow> nat option \<Rightarrow> error + 'w Step" where
  "Next s c w d \<equiv> Inr \<lparr>state = s, self = c, world = w, delay = d\<rparr>"

subsection \<open>Startup and synchronisation\<close>


text \<open>
  \<open>OnSynchronising\<close> ends, when the chain has forked from what was executed, with the
  reconciliation against the path to the common ancestor; this last part of the handler, from
  the reading of \<open>common_parent\<close> and \<open>next_block\<close> off the back of the path on, is
  \<open>Synchronising_reconcile\<close>. The path is \<open>blocks_to_common_ancestor_\<close>, which holds at
  least two blocks there.
\<close>

definition Synchronising_reconcile ::
  "'w Collaborators \<Rightarrow> BlockCoordinator \<Rightarrow> 'w \<Rightarrow> error + 'w Step" where
  "Synchronising_reconcile K c w =
    (let common_parent = last (blocks_to_common_ancestor c);
         next_block' = last (butlast (blocks_to_common_ancestor c))
     in
     if \<not> storage_HashExists K (merkle_hash (body common_parent))
             (block_number (body common_parent)) w
     then
       let w1 = execution_SetLastProcessedBlock K (GENESIS_DIGEST K) w;
           w2 = snd (storage_RevertToHash K (GENESIS_MERKLE_ROOT K) 0 w1);
           w3 = (if dag c then snd (dag_RevertToEpoch K 0 w2) else w2)
       in Next RESET c w3 (Some 5000)
     else
       let (reverted, w1) =
             storage_RevertToHash K (merkle_hash (body common_parent))
               (block_number (body common_parent)) w
       in
       if \<not> reverted then Next RESET c w1 (Some 5000)
       else
         let (dag_reverted, w2) =
               (if dag c then dag_RevertToEpoch K (block_number (body common_parent)) w1
                else (True, w1))
         in
         if \<not> dag_reverted then Next RESET c w2 (Some 5000)
         else
           let popped = butlast (blocks_to_common_ancestor c);
               kept = (if length popped < THRESHOLD_FOR_FAST_SYNCING then [] else popped)
           in Next PRE_EXEC_BLOCK_VALIDATION
                (c\<lparr>current_block := Some next_block', blocks_to_common_ancestor := kept\<rparr>)
                w2 None)"

definition OnSynchronising :: "'w Collaborators \<Rightarrow> BlockCoordinator \<Rightarrow> 'w \<Rightarrow> error + 'w Step" where
  "OnSynchronising K c w =
    (let c1 = (if current_block c = None
               then c\<lparr>current_block := chain_GetHeaviestBlock K w\<rparr> else c)
     in case current_block c1 of
          None \<Rightarrow> Next RESET c1 w (Some 500)
        | Some cur \<Rightarrow>
            if hash (body cur) = [] then Next RESET c1 w (Some 500)
            else
              let current_hash = hash (body cur);
                  previous_hash' = previous_hash (body cur);
                  last_processed_block = execution_LastProcessedBlock K w
              in
              if GENESIS_DIGEST K = last_processed_block then
                (if GENESIS_DIGEST K = previous_hash' then
                   Next PRE_EXEC_BLOCK_VALIDATION c1 w None
                 else
                   case chain_GetBlock K previous_hash' w of
                     None \<Rightarrow> Next RESET c1 w None
                   | Some previous_block \<Rightarrow>
                       Next SYNCHRONISING (c1\<lparr>current_block := Some previous_block\<rparr>) w None)
              else if current_hash = last_processed_block then
                Next SYNCHRONISED c1 w None
              else
                let (lookup_success, path) =
                      (if blocks_to_common_ancestor c1 = [] then
                         chain_GetPathToCommonAncestor K current_hash last_processed_block
                           (COMMON_PATH_TO_ANCESTOR_LENGTH_LIMIT K) RETURN_LEAST_RECENT w
                       else (True, blocks_to_common_ancestor c1));
                    c2 = c1\<lparr>blocks_to_common_ancestor := path\<rparr>
                in
                if \<not> lookup_success then Next RESET c2 w None
                else if \<not> 2 \<le> length path then Inl AssertionFailed
                else Synchronising_reconcile K c2 w)"

definition OnSynchronised ::
  "'w Collaborators \<Rightarrow> State \<Rightarrow> State \<Rightarrow> BlockCoordinator \<Rightarrow> 'w \<Rightarrow> error + 'w Step" where
  "OnSynchronised K current previous c w =
    (case current_block c of
       None \<Rightarrow> Inl NullDereference
     | Some cur \<Rightarrow>
         if chain_GetHeaviestBlockHash K w \<noteq> hash (body cur) then Next RESET c w None
         else if mining c \<and> mining_enabled c \<and> next_block_time c \<le> Clock_now K w then
           (if stake c \<and> \<not> stake_ShouldGenerateBlock K cur (mining_address c) w then
              Next SYNCHRONISED c w (Some 100)
            else
              let b0 = Block_default K;
                  b1 = b0\<lparr>body := (body b0)\<lparr>previous_hash := hash (body cur),
                                             block_number := block_number (body cur) + 1,
                                             miner := mining_address c\<rparr>\<rparr>;
                  b2 = (if stake c then
                          b1\<lparr>weight := stake_GetBlockGenerationWeight K cur (mining_address c) w\<rparr>
                        else b1);
                  (b3, w1) =
                    (if dag c then
                       let (epoch, w') = dag_CreateEpoch K (block_number (body b2)) w
                       in (b2\<lparr>body := (body b2)\<lparr>dag_epoch := epoch\<rparr>\<rparr>, w')
                     else (b2, w));
                  b4 = b3\<lparr>block_proof := SetTarget (block_difficulty c) (block_proof b3)\<rparr>
              in Next NEW_SYNERGETIC_EXECUTION
                   (c\<lparr>next_block := Some b4, current_block := None\<rparr>) w1 None)
         else if SYNCHRONISING = previous then Next SYNCHRONISED c w None
         else Next SYNCHRONISED c w (Some 100))"

subsection \<open>Executing a block of the chain\<close>


definition OnSynergeticExecution ::
  "'w Collaborators \<Rightarrow> BlockCoordinator \<Rightarrow> 'w \<Rightarrow> error + 'w Step" where
  "OnSynergeticExecution K c w =
    (case current_block c of
       None \<Rightarrow> Inl NullDereference
     | Some cur \<Rightarrow>
         let is_genesis = (previous_hash (body cur) = GENESIS_DIGEST K)
         in
         if \<not> is_genesis \<and> synergetic_exec_mgr c then
           (case chain_GetBlock K (previous_hash (body cur)) w of
              None \<Rightarrow> Next RESET c w None
            | Some previous_block \<Rightarrow>
                let (status, w1) = synergetic_PrepareWorkQueue K cur previous_block w
                in
                if SUCCESS \<noteq> status then Next RESET c w1 None
                else
                  let (validated, w2) =
                        synergetic_ValidateWorkAndUpdateState K (block_number (body cur))
                          (num_lanes c) w1
                  in
                  if \<not> validated then
                    Next RESET c (chain_RemoveBlock K (hash (body cur)) w2) None
                  else Next SCHEDULE_BLOCK_EXECUTION c w2 None)
         else Next SCHEDULE_BLOCK_EXECUTION c w None)"


text \<open>
  \<open>OnWaitForTransactions\<close> first looks at its two timers and then polls the storage; the
  second half, from \<open>dag_is_ready\<close> on, is \<open>WaitForTransactions_poll\<close>.
\<close>

definition WaitForTransactions_poll ::
  "'w Collaborators \<Rightarrow> BlockCoordinator \<Rightarrow> 'w \<Rightarrow> error + 'w Step" where
  "WaitForTransactions_poll K c w =
    (case (if dag c then
             (case current_block c of
                None \<Rightarrow> Inl NullDereference
              | Some cur \<Rightarrow> Inr (dag_SatisfyEpoch K (dag_epoch (body cur)) w))
           else Inr (True, w)) of
       Inl e \<Rightarrow> Inl e
     | Inr (dag_is_ready, w1) \<Rightarrow>
         (case (case pending_txs c of
                  Some cached \<Rightarrow> Inr cached
                | None \<Rightarrow>
                    (case current_block c of
                       None \<Rightarrow> Inl NullDereference
                     | Some cur \<Rightarrow> Inr (set (concat (slices (body cur)))))) of
            Inl e \<Rightarrow> Inl e
          | Inr txs \<Rightarrow>
              let remaining = {d \<in> txs. \<not> storage_HasTransaction K d w1}
              in
              if remaining = {} \<and> dag_is_ready then
                Next SYNERGETIC_EXECUTION (c\<lparr>pending_txs := None\<rparr>) w1 None
              else
                Next WAIT_FOR_TRANSACTIONS (c\<lparr>pending_txs := Some remaining\<rparr>) w1 (Some 200)))"

definition OnWaitForTransactions ::
  "'w Collaborators \<Rightarrow> State \<Rightarrow> State \<Rightarrow> BlockCoordinator \<Rightarrow> 'w \<Rightarrow> error + 'w Step" where
  "OnWaitForTransactions K current previous c w =
    (if previous = current then
       (if have_asked_for_missing_txs c then
          (if HasExpired (wait_for_tx_timeout c) (Clock_now K w) then
             (case current_block c of
                None \<Rightarrow> Inl NullDereference
              | Some cur \<Rightarrow> Next RESET c (chain_RemoveBlock K (hash (body cur)) w) None)
           else WaitForTransactions_poll K c w)
        else if HasExpired (wait_before_asking_for_missing_tx c) (Clock_now K w) then
          (case pending_txs c of
             None \<Rightarrow> Inl NullDereference
           | Some txs \<Rightarrow>
               let w1 = storage_IssueCallForMissingTxs K txs w
               in WaitForTransactions_poll K
                    (c\<lparr>have_asked_for_missing_txs := True,
                       wait_for_tx_timeout :=
                         Restart WAIT_FOR_TX_TIMEOUT_INTERVAL (Clock_now K w1)\<rparr>) w1)
        else WaitForTransactions_poll K c w)
     else
       WaitForTransactions_poll K
         (c\<lparr>wait_before_asking_for_missing_tx :=
               Restart WAIT_BEFORE_ASKING_FOR_MISSING_TX_INTERVAL (Clock_now K w),
             have_asked_for_missing_txs := False\<rparr>) w)"






definition UpdateTxStatus :: "'w Collaborators \<Rightarrow> Block \<Rightarrow> 'w \<Rightarrow> 'w" where
  "UpdateTxStatus K block w =
    fold (\<lambda>slice. fold (\<lambda>tx. status_cache_Update K tx EXECUTED) slice) (slices (body block)) w"

text \<open>
  In the recovery branch of \<open>OnPostExecBlockValidation\<close> the source calls
  \<open>dag_->RevertToEpoch\<close> without testing \<open>dag_\<close>; every other use of the pointer is
  guarded.
\<close>

definition OnPostExecBlockValidation ::
  "'w Collaborators \<Rightarrow> BlockCoordinator \<Rightarrow> 'w \<Rightarrow> error + 'w Step" where
  "OnPostExecBlockValidation K c w =
    (case current_block c of
       None \<Rightarrow> Inl NullDereference
     | Some cur \<Rightarrow>
         let state_hash = storage_CurrentHash K w;
             invalid_block = (GENESIS_DIGEST K \<noteq> previous_hash (body cur) \<and>
                              state_hash \<noteq> merkle_hash (body cur))
         in
         if invalid_block then
           (case (case chain_GetBlock K (previous_hash (body cur)) w of
                    None \<Rightarrow> Inr (False, w)
                  | Some previous_block \<Rightarrow>
                      if \<not> dag c then Inl NullDereference
                      else
                        let (dag_reverted, w1) =
                              dag_RevertToEpoch K (block_number (body previous_block)) w;
                            (reverted, w2) =
                              storage_RevertToHash K (merkle_hash (body previous_block))
                                (block_number (body previous_block)) w1
                        in
                        if reverted \<and> dag_reverted then
                          Inr (True, execution_SetLastProcessedBlock K
                                       (hash (body previous_block)) w2)
                        else Inr (dag_reverted, w2)) of
              Inl e \<Rightarrow> Inl e
            | Inr (revert_successful, w3) \<Rightarrow>
                let w6 =
                      (if \<not> revert_successful then
                         let w4 = (if dag c then snd (dag_RevertToEpoch K 0 w3) else w3);
                             w5 = snd (storage_RevertToHash K (GENESIS_MERKLE_ROOT K) 0 w4)
                         in execution_SetLastProcessedBlock K (GENESIS_DIGEST K) w5
                       else w3)
                in Next RESET c (chain_RemoveBlock K (hash (body cur)) w6) None)
         else
           let w1 = UpdateTxStatus K cur w;
               w2 = storage_Commit K (block_number (body cur)) w1;
               w3 = (if dag c then dag_CommitEpoch K (dag_epoch (body cur)) w2 else w2)
           in Next RESET (c\<lparr>last_executed_block := hash (body cur)\<rparr>) w3 None)"

subsection \<open>Minting a block\<close>







definition OnTransmitBlock :: "'w Collaborators \<Rightarrow> BlockCoordinator \<Rightarrow> 'w \<Rightarrow> error + 'w Step" where
  "OnTransmitBlock K c w =
    (case next_block c of
       None \<Rightarrow> Inl NullDereference
     | Some nxt \<Rightarrow>
         (case chain_AddBlock K nxt w of
            (Returns ADDED, w1) \<Rightarrow>
              let w2 = UpdateTxStatus K nxt w1;
                  w3 = sink_OnBlock K nxt w2
              in Next RESET (c\<lparr>last_executed_block := hash (body nxt)\<rparr>) w3 None
          | (_, w1) \<Rightarrow> Next RESET c w1 None))"


subsection \<open>The handler table and the public interface\<close>


definition TriggerBlockGeneration :: "'w Collaborators \<Rightarrow> BlockCoordinator \<Rightarrow> 'w \<Rightarrow> BlockCoordinator" where
  "TriggerBlockGeneration K c w = (if mining c then c\<lparr>next_block_time := Clock_now K w\<rparr> else c)"

definition Reset :: "'w Collaborators \<Rightarrow> BlockCoordinator \<Rightarrow> 'w \<Rightarrow> BlockCoordinator \<times> 'w" where
  "Reset K c w =
    (c\<lparr>last_executed_block := GENESIS_DIGEST K\<rparr>,
     chain_Reset K (execution_SetLastProcessedBlock K (GENESIS_DIGEST K) w))"

section \<open>Waiting for transactions over time\<close>

text \<open>
  Modelled from the spec: the state machine that drives the handlers is declared outside the
  coordinator. It calls the handler of the current state with the current and the previous
  state, and enters a handler again after it has returned its own state. A run in
  WAIT_FOR_TRANSACTIONS is given by the state of the collaborators, the clock among them, at
  each entry; it ends with the first result that is an error or another state. The run lists,
  for each entry, the coordinator as the handler found it and the result of the handler.
\<close>

fun WaitForTransactions_run ::
  "'w Collaborators \<Rightarrow> State \<Rightarrow> BlockCoordinator \<Rightarrow> 'w list \<Rightarrow>
   (BlockCoordinator \<times> (error + 'w Step)) list" where
  "WaitForTransactions_run K previous c [] = []"
| "WaitForTransactions_run K previous c (w # ws) =
    (case OnWaitForTransactions K WAIT_FOR_TRANSACTIONS previous c w of
       Inl e \<Rightarrow> [(c, Inl e)]
     | Inr r \<Rightarrow>
         (c, Inr r) #
         (if state r = WAIT_FOR_TRANSACTIONS
          then WaitForTransactions_run K WAIT_FOR_TRANSACTIONS (self r) ws else []))"

text \<open>
  The entries are paced with a period when each one comes no earlier than the one before it
  and at most the period later; \<open>t\<close> is the time of the entry before the first of the list.
\<close>

fun paced :: "('w \<Rightarrow> Timepoint) \<Rightarrow> nat \<Rightarrow> Timepoint \<Rightarrow> 'w list \<Rightarrow> bool" where
  "paced clock period t [] = True"
| "paced clock period t (w # ws) =
    (t \<le> clock w \<and> clock w \<le> t + period \<and> paced clock period (clock w) ws)"

text \<open>
  What holds of the coordinator after an entry at time \<open>t\<close> that stays in
  WAIT_FOR_TRANSACTIONS, in a run on the block \<open>cur\<close> that began at time \<open>t0\<close>.
\<close>

definition waiting :: "Block \<Rightarrow> Timepoint \<Rightarrow> nat \<Rightarrow> BlockCoordinator \<Rightarrow> Timepoint \<Rightarrow> bool" where
  "waiting cur t0 period c t \<longleftrightarrow>
     current_block c = Some cur \<and> pending_txs c \<noteq> None \<and>
     wait_before_asking_for_missing_tx c = t0 + WAIT_BEFORE_ASKING_FOR_MISSING_TX_INTERVAL \<and>
     (if have_asked_for_missing_txs c then
        t < wait_for_tx_timeout c \<and>
        t0 + WAIT_BEFORE_ASKING_FOR_MISSING_TX_INTERVAL + WAIT_FOR_TX_TIMEOUT_INTERVAL
          \<le> wait_for_tx_timeout c \<and>
        wait_for_tx_timeout c <
          t0 + WAIT_BEFORE_ASKING_FOR_MISSING_TX_INTERVAL + WAIT_FOR_TX_TIMEOUT_INTERVAL + period
      else t < t0 + WAIT_BEFORE_ASKING_FOR_MISSING_TX_INTERVAL)"

text \<open>
  The transactions the handler looks for at an entry: the cached pending set, or, when there
  is none, the digests of all transactions in all slices of the block.
\<close>

definition pending_on_entry :: "Block \<Rightarrow> BlockCoordinator \<Rightarrow> Digest set" where
  "pending_on_entry cur c =
    (case pending_txs c of
       Some cached \<Rightarrow> cached
     | None \<Rightarrow> set (concat (slices (body cur))))"

text \<open>
  An entry that found the coordinator \<open>c\<close> and the collaborators in the state \<open>w\<close> has
  polled, with the step \<open>r\<close>, when: the DAG, if there is one, was asked whether the epoch of
  the block is satisfied, in the state \<open>w\<close> or in the state after the call for the missing
  transactions, and the step leaves the collaborators as that question left them; the step
  goes on to SYNERGETIC_EXECUTION, with the pending set dropped, if every transaction looked
  for is in the storage and the DAG is ready; and otherwise it stays in
  WAIT_FOR_TRANSACTIONS and the pending set is what is still missing.
\<close>

definition polled :: "'w Collaborators \<Rightarrow> Block \<Rightarrow> BlockCoordinator \<Rightarrow> 'w \<Rightarrow> 'w Step \<Rightarrow> bool" where
  "polled K cur c w r \<longleftrightarrow>
    (\<exists>v dag_is_ready.
       (v = w \<or> (\<exists>txs. v = storage_IssueCallForMissingTxs K txs w)) \<and>
       (if dag c then dag_SatisfyEpoch K (dag_epoch (body cur)) v = (dag_is_ready, world r)
        else dag_is_ready \<and> world r = v) \<and>
       (if {d \<in> pending_on_entry cur c. \<not> storage_HasTransaction K d (world r)} = {} \<and>
           dag_is_ready
        then state r = SYNERGETIC_EXECUTION \<and> pending_txs (self r) = None
        else state r = WAIT_FOR_TRANSACTIONS \<and>
             pending_txs (self r) =
               Some {d \<in> pending_on_entry cur c. \<not> storage_HasTransaction K d (world r)}))"

text \<open>
  What an entry of such a run, which found the coordinator \<open>c\<close> and the collaborators in
  the state \<open>w\<close>, may result in. Either it has polled: it stays, and then it is early, or it
  goes on to SYNERGETIC_EXECUTION. Or it goes to RESET with the block removed from the chain,
  and then both intervals have passed since the run began.
\<close>

definition wait_outcome ::
  "'w Collaborators \<Rightarrow> Block \<Rightarrow> Timepoint \<Rightarrow> nat \<Rightarrow> BlockCoordinator \<Rightarrow> 'w \<Rightarrow>
   error + 'w Step \<Rightarrow> bool" where
  "wait_outcome K cur t0 period c w res \<longleftrightarrow>
    (case res of
       Inl e \<Rightarrow> False
     | Inr r \<Rightarrow>
         (polled K cur c w r \<and>
          (if state r = WAIT_FOR_TRANSACTIONS then
             Clock_now K w <
               t0 + WAIT_BEFORE_ASKING_FOR_MISSING_TX_INTERVAL + WAIT_FOR_TX_TIMEOUT_INTERVAL +
               period
           else
             Clock_now K w <
               t0 + WAIT_BEFORE_ASKING_FOR_MISSING_TX_INTERVAL + WAIT_FOR_TX_TIMEOUT_INTERVAL +
               2 * period))
       \<or> (state r = RESET \<and> world r = chain_RemoveBlock K (hash (body cur)) w \<and>
          t0 + WAIT_BEFORE_ASKING_FOR_MISSING_TX_INTERVAL + WAIT_FOR_TX_TIMEOUT_INTERVAL
            \<le> Clock_now K w \<and>
          Clock_now K w <
            t0 + WAIT_BEFORE_ASKING_FOR_MISSING_TX_INTERVAL + WAIT_FOR_TX_TIMEOUT_INTERVAL +
            2 * period))"

section \<open>Test doubles\<close>

text \<open>
  Concrete collaborators, in the manner of the repository's \<open>FakeStorageUnit\<close>, on which the
  properties below are instantiated. The chain is a list of blocks; the storage keeps its
  current hash and the list of committed (hash, block number) pairs, \<open>Commit\<close> archives the
  current hash and \<open>RevertToHash\<close> succeeds on an archived pair; the execution manager keeps
  the last processed digest, which \<open>Execute\<close> sets to the hash of the body it is given. The
  DAG and the stake manager always agree. The calls to the block sink, to the status cache and
  for missing transactions are recorded in order.
\<close>

datatype FakeCall = Asked_for "Digest set" | Marked Digest | Sent Block

record Fake =
  fake_now :: Timepoint
  fake_heaviest :: "Block option"
  fake_chain :: "Block list"
  fake_path :: "bool \<times> Block list"
  fake_add_result :: "BlockStatus Outcome"
  fake_current_hash :: Digest
  fake_commits :: "(Digest \<times> 64 word) list"
  fake_transactions :: "Digest list"
  fake_last_processed :: Digest
  fake_engine_state :: ExecutionState
  fake_prepare :: SynExecStatus
  fake_validate :: bool
  fake_calls :: "FakeCall list"

definition digest32 :: "8 word \<Rightarrow> Digest" where
  "digest32 b = replicate 32 b"

definition fake_default_block :: Block where
  "fake_default_block =
    \<lparr>body = \<lparr>hash = [], previous_hash = [], merkle_hash = [], block_number = 0, miner = [],
             log2_num_lanes = 0, slices = [], dag_epoch = []\<rparr>,
     weight = 1, block_proof = \<lparr>target = 0\<rparr>\<rparr>"

definition fake :: "Fake Collaborators" where
  "fake =
    \<lparr>GENESIS_DIGEST = digest32 0,
     GENESIS_MERKLE_ROOT = digest32 255,
     COMMON_PATH_TO_ANCESTOR_LENGTH_LIMIT = 5000,
     Block_default = fake_default_block,
     UpdateDigest = (\<lambda>b. b\<lparr>body := (body b)\<lparr>hash := 1 # merkle_hash (body b)\<rparr>\<rparr>),
     Clock_now = fake_now,
     chain_GetHeaviestBlock = fake_heaviest,
     chain_GetHeaviestBlockHash =
       (\<lambda>w. case fake_heaviest w of None \<Rightarrow> [] | Some b \<Rightarrow> hash (body b)),
     chain_GetBlock = (\<lambda>h w. find (\<lambda>b. hash (body b) = h) (fake_chain w)),
     chain_GetPathToCommonAncestor = (\<lambda>tip node limit behaviour w. fake_path w),
     chain_RemoveBlock =
       (\<lambda>h w. w\<lparr>fake_chain := filter (\<lambda>b. hash (body b) \<noteq> h) (fake_chain w)\<rparr>),
     chain_AddBlock =
       (\<lambda>b w. (fake_add_result w,
               if fake_add_result w = Returns ADDED then w\<lparr>fake_chain := b # fake_chain w\<rparr>
               else w)),
     chain_Reset = (\<lambda>w. w\<lparr>fake_chain := [], fake_heaviest := None\<rparr>),
     storage_LastCommitHash =
       (\<lambda>w. case fake_commits w of [] \<Rightarrow> digest32 255 | (h, n) # _ \<Rightarrow> h),
     storage_CurrentHash = fake_current_hash,
     storage_HashExists = (\<lambda>h n w. (h, n) \<in> set (fake_commits w)),
     storage_RevertToHash =
       (\<lambda>h n w. if (h, n) \<in> set (fake_commits w) then (True, w\<lparr>fake_current_hash := h\<rparr>)
                 else (False, w)),
     storage_Commit = (\<lambda>n w. w\<lparr>fake_commits := (fake_current_hash w, n) # fake_commits w\<rparr>),
     storage_HasTransaction = (\<lambda>d w. d \<in> set (fake_transactions w)),
     storage_IssueCallForMissingTxs = (\<lambda>txs w. w\<lparr>fake_calls := fake_calls w @ [Asked_for txs]\<rparr>),
     execution_LastProcessedBlock = fake_last_processed,
     execution_SetLastProcessedBlock = (\<lambda>h w. w\<lparr>fake_last_processed := h\<rparr>),
     execution_Execute = (\<lambda>b w. (SCHEDULED, w\<lparr>fake_last_processed := hash b\<rparr>)),
     execution_GetState = fake_engine_state,
     dag_CurrentEpoch = (\<lambda>w. 0),
     dag_RevertToEpoch = (\<lambda>n w. (True, w)),
     dag_CreateEpoch = (\<lambda>n w. ([ucast n], w)),
     dag_SatisfyEpoch = (\<lambda>e w. (True, w)),
     dag_CommitEpoch = (\<lambda>e w. w),
     stake_ShouldGenerateBlock = (\<lambda>b a w. True),
     stake_ValidMinerForBlock = (\<lambda>b a w. True),
     stake_GetBlockGenerationWeight = (\<lambda>b a w. 7),
     stake_UpdateCurrentBlock = (\<lambda>b w. w),
     synergetic_PrepareWorkQueue = (\<lambda>b p w. (fake_prepare w, w)),
     synergetic_ValidateWorkAndUpdateState = (\<lambda>n l w. (fake_validate w, w)),
     packer_GenerateBlock = (\<lambda>b l s w. (Returns (), b, w)),
     sink_OnBlock = (\<lambda>b w. w\<lparr>fake_calls := fake_calls w @ [Sent b]\<rparr>),
     status_cache_Update = (\<lambda>d s w. w\<lparr>fake_calls := fake_calls w @ [Marked d]\<rparr>),
     miner_Mine = (\<lambda>b n w. (True, b, w))\<rparr>"

definition fake_world :: Fake where
  "fake_world =
    \<lparr>fake_now = 1000, fake_heaviest = None, fake_chain = [], fake_path = (False, []),
     fake_add_result = Returns ADDED, fake_current_hash = digest32 255, fake_commits = [],
     fake_transactions = [], fake_last_processed = digest32 0,
     fake_engine_state = ExecutionState_IDLE, fake_prepare = SUCCESS, fake_validate = True,
     fake_calls = []\<rparr>"

definition fake_coordinator :: BlockCoordinator where
  "fake_coordinator =
    \<lparr>dag = False, stake = False, synergetic_exec_mgr = False,
     last_executed_block = digest32 0, mining_address = [9], block_difficulty = 4,
     num_lanes = 1, num_slices = 2, mining = False, mining_enabled = False,
     block_period = 10000, next_block_time = 0, current_block = None, next_block = None,
     pending_txs = None, blocks_to_common_ancestor = [], have_asked_for_missing_txs = False,
     wait_for_tx_timeout = 0, wait_before_asking_for_missing_tx = 0\<rparr>"

text \<open>
  A block of the test chain: its hash, the hash of its parent, its Merkle root and its number.
  Every such block carries the same two slices of one transaction each.
\<close>

definition fake_block :: "8 word \<Rightarrow> 8 word \<Rightarrow> 8 word \<Rightarrow> 64 word \<Rightarrow> Block" where
  "fake_block h p m n =
    \<lparr>body = \<lparr>hash = digest32 h, previous_hash = digest32 p, merkle_hash = digest32 m,
             block_number = n, miner = [], log2_num_lanes = 0,
             slices = [[digest32 200], [digest32 201]], dag_epoch = []\<rparr>,
     weight = 1, block_proof = \<lparr>target = 0\<rparr>\<rparr>"

text \<open>
  A fork: the coordinator holds the tip, block 3, while the execution manager has processed a
  block of another branch; the path leads over block 2 to the common parent, block 1.
\<close>

definition fork_path :: "Block list" where
  "fork_path = [fake_block 3 2 131 3, fake_block 2 1 130 2, fake_block 1 0 129 1]"

definition fork_world :: Fake where
  "fork_world = fake_world\<lparr>fake_last_processed := digest32 9, fake_path := (True, fork_path)\<rparr>"

definition fork_coordinator :: BlockCoordinator where
  "fork_coordinator = fake_coordinator\<lparr>current_block := Some (fake_block 3 2 131 3)\<rparr>"

text \<open>
  A long fork: the path has 101 blocks, from the tip, block 101, at its front to the common
  parent, block 1, at its back, and the state of block 1 is committed.
\<close>

definition chain_block :: "nat \<Rightarrow> Block" where
  "chain_block n = fake_block (of_nat n) (of_nat (n - 1)) (of_nat (n + 128)) (of_nat n)"

definition long_path :: "Block list" where
  "long_path = chain_block 101 # map chain_block (rev [3..<101]) @ [chain_block 2, chain_block 1]"

definition long_fork_world :: Fake where
  "long_fork_world =
     fake_world\<lparr>fake_last_processed := digest32 1, fake_path := (True, long_path),
                fake_commits := [(digest32 129, 1)]\<rparr>"

definition long_fork_coordinator :: BlockCoordinator where
  "long_fork_coordinator = fake_coordinator\<lparr>current_block := Some (chain_block 101)\<rparr>"

text \<open>
  Block 2 on top of block 1, both in the chain, with the synergetic execution manager set.
\<close>

definition synergetic_coordinator :: BlockCoordinator where
  "synergetic_coordinator =
     fake_coordinator\<lparr>synergetic_exec_mgr := True, current_block := Some (fake_block 2 1 130 2)\<rparr>"

definition synergetic_world :: Fake where
  "synergetic_world = fake_world\<lparr>fake_chain := [fake_block 2 1 130 2, fake_block 1 0 129 1]\<rparr>"

text \<open>
  A coordinator that mines, with a DAG and a stake manager, synchronised on the tip, block 3.
\<close>

definition minting_coordinator :: BlockCoordinator where
  "minting_coordinator =
     fake_coordinator\<lparr>dag := True, stake := True, mining := True, mining_enabled := True,
                      current_block := Some (fake_block 3 2 131 3)\<rparr>"

definition minting_world :: Fake where
  "minting_world = fake_world\<lparr>fake_heaviest := Some (fake_block 3 2 131 3)\<rparr>"

text \<open>
  Block 2 has been executed on top of block 1, without a DAG, and the storage reports a hash
  that is not the Merkle root of block 2.
\<close>

definition validating_coordinator :: BlockCoordinator where
  "validating_coordinator = fake_coordinator\<lparr>current_block := Some (fake_block 2 1 130 2)\<rparr>"

definition mismatch_world :: Fake where
  "mismatch_world =
     fake_world\<lparr>fake_chain := [fake_block 2 1 130 2, fake_block 1 0 129 1],
                fake_current_hash := digest32 77, fake_last_processed := digest32 2\<rparr>"

text \<open>A mined block 4 that is ready to be transmitted.\<close>

definition transmitting_coordinator :: BlockCoordinator where
  "transmitting_coordinator = fake_coordinator\<lparr>next_block := Some (fake_block 4 3 132 4)\<rparr>"








text \<open>
  Block 2 waits for its two transactions, which never arrive, and the handler is entered
  every seven seconds.
\<close>

definition entry_at :: "Timepoint \<Rightarrow> Fake" where
  "entry_at t = mismatch_world\<lparr>fake_now := t\<rparr>"

definition slow_entries :: "Fake list" where
  "slow_entries =
     map entry_at [7000, 14000, 21000, 28000, 35000, 42000, 49000, 56000, 63000, 70000]"

text \<open>The same block when both its transactions are in the storage.\<close>

definition arrived_world :: Fake where
  "arrived_world = mismatch_world\<lparr>fake_transactions := [digest32 201, digest32 200]\<rparr>"


section \<open>Verified properties\<close>

subsection \<open>Facts about the test doubles\<close>

lemma digest32_eq [simp]: "digest32 a = digest32 b \<longleftrightarrow> a = b"
  by (simp add: digest32_def)

lemma digest32_nonempty [simp]: "digest32 a \<noteq> []" "[] \<noteq> digest32 a"
  by (simp_all add: digest32_def)

lemma length_digest32 [simp]: "length (digest32 a) = 32"
  by (simp add: digest32_def)

lemma long_path_facts:
  "length long_path = 101"
  "last long_path = chain_block 1"
  "butlast long_path = chain_block 101 # map chain_block (rev [3..<101]) @ [chain_block 2]"
  "tl long_path = map chain_block (rev [3..<101]) @ [chain_block 2, chain_block 1]"
  by (simp_all add: long_path_def butlast_append)

subsection \<open>Execution status\<close>

text \<open>
  C8. The executor status mapping sends each of the five engine states to one coordinator
  view: IDLE to IDLE, ACTIVE to RUNNING, TRANSACTIONS_UNAVAILABLE to STALLED, and
  EXECUTION_ABORTED and EXECUTION_FAILED to ERROR.
\<close>

theorem QueryExecutorStatus_mapping:
  "QueryExecutorStatus K w =
     (case execution_GetState K w of
        ExecutionState_IDLE \<Rightarrow> ExecutionStatus_IDLE
      | ExecutionState_ACTIVE \<Rightarrow> ExecutionStatus_RUNNING
      | ExecutionState_TRANSACTIONS_UNAVAILABLE \<Rightarrow> ExecutionStatus_STALLED
      | ExecutionState_EXECUTION_ABORTED \<Rightarrow> ExecutionStatus_ERROR
      | ExecutionState_EXECUTION_FAILED \<Rightarrow> ExecutionStatus_ERROR)"
  by (cases "execution_GetState K w") (simp_all add: QueryExecutorStatus_def)

subsection \<open>Fork reconciliation\<close>

text \<open>
  When a current block with a hash is at hand, the execution manager has processed a block
  other than it, and a path of at least two blocks to the common ancestor is cached or found,
  \<open>OnSynchronising\<close> is the reconciliation on that path.
\<close>

lemma OnSynchronising_fork:
  assumes cur: "(case current_block c of None \<Rightarrow> chain_GetHeaviestBlock K w | Some b \<Rightarrow> Some b) = Some cur"
    and nonempty: "hash (body cur) \<noteq> []"
    and processed: "GENESIS_DIGEST K \<noteq> execution_LastProcessedBlock K w"
    and behind: "hash (body cur) \<noteq> execution_LastProcessedBlock K w"
    and lookup: "(if blocks_to_common_ancestor c = [] then
                    chain_GetPathToCommonAncestor K (hash (body cur)) (execution_LastProcessedBlock K w)
                      (COMMON_PATH_TO_ANCESTOR_LENGTH_LIMIT K) RETURN_LEAST_RECENT w
                  else (True, blocks_to_common_ancestor c)) = (True, path)"
    and len: "2 \<le> length path"
  shows "OnSynchronising K c w =
    Synchronising_reconcile K (c\<lparr>current_block := Some cur, blocks_to_common_ancestor := path\<rparr>) w"
proof -
  have c1: "(if current_block c = None
               then c\<lparr>current_block := chain_GetHeaviestBlock K w\<rparr> else c) = c\<lparr>current_block := Some cur\<rparr>"
    using cur by (cases "current_block c") auto
  show ?thesis
  proof (cases "blocks_to_common_ancestor c = []")
    case True
    with lookup have
      "chain_GetPathToCommonAncestor K (hash (body cur)) (execution_LastProcessedBlock K w)
         (COMMON_PATH_TO_ANCESTOR_LENGTH_LIMIT K) RETURN_LEAST_RECENT w = (True, path)"
      by simp
    with True nonempty processed behind len show ?thesis
      unfolding OnSynchronising_def c1 by (simp add: Let_def)
  next
    case False
    with lookup have "blocks_to_common_ancestor c = path"
      by simp
    with False nonempty processed behind len show ?thesis
      unfolding OnSynchronising_def c1 by (simp add: Let_def)
  qed
qed

text \<open>
  C5. In the fork reconciliation, if the state of the common parent (its Merkle hash at its
  block number) does not exist in the storage, the coordinator sets the last processed block
  of the execution manager to the genesis digest, reverts the storage to the genesis Merkle
  root at block number 0 and, if there is a DAG, the DAG to epoch 0, in this order, asks for
  a delay of five seconds and goes to RESET.
\<close>

theorem OnSynchronising_ancestor_state_missing:
  assumes cur: "(case current_block c of None \<Rightarrow> chain_GetHeaviestBlock K w | Some b \<Rightarrow> Some b) = Some cur"
    and nonempty: "hash (body cur) \<noteq> []"
    and processed: "GENESIS_DIGEST K \<noteq> execution_LastProcessedBlock K w"
    and behind: "hash (body cur) \<noteq> execution_LastProcessedBlock K w"
    and lookup: "(if blocks_to_common_ancestor c = [] then
                    chain_GetPathToCommonAncestor K (hash (body cur)) (execution_LastProcessedBlock K w)
                      (COMMON_PATH_TO_ANCESTOR_LENGTH_LIMIT K) RETURN_LEAST_RECENT w
                  else (True, blocks_to_common_ancestor c)) = (True, path)"
    and len: "2 \<le> length path"
    and missing: "\<not> storage_HashExists K (merkle_hash (body (last path)))
                      (block_number (body (last path))) w"
  shows "OnSynchronising K c w =
    Next RESET (c\<lparr>current_block := Some cur, blocks_to_common_ancestor := path\<rparr>)
      (if dag c then
         snd (dag_RevertToEpoch K 0
               (snd (storage_RevertToHash K (GENESIS_MERKLE_ROOT K) 0
                      (execution_SetLastProcessedBlock K (GENESIS_DIGEST K) w))))
       else
         snd (storage_RevertToHash K (GENESIS_MERKLE_ROOT K) 0
               (execution_SetLastProcessedBlock K (GENESIS_DIGEST K) w)))
      (Some 5000)"
  using missing
  by (simp add: OnSynchronising_fork [OF cur nonempty processed behind lookup len]
        Synchronising_reconcile_def)

theorem OnSynchronising_ancestor_state_missing_witness:
  "OnSynchronising fake fork_coordinator fork_world =
     Next RESET (fork_coordinator\<lparr>blocks_to_common_ancestor := fork_path\<rparr>)
       (fork_world\<lparr>fake_last_processed := digest32 0\<rparr>) (Some 5000)"
  using OnSynchronising_ancestor_state_missing
    [where K = fake and c = fork_coordinator and w = fork_world
       and cur = "fake_block 3 2 131 3" and path = fork_path]
  by (simp add: fake_def fork_coordinator_def fork_world_def fork_path_def fake_world_def
        fake_coordinator_def fake_block_def)

text \<open>
  C3, as the code has it. In the fork reconciliation, once the state of the common parent is
  found and the storage (and the DAG, if there is one) is reverted to it, the coordinator
  makes the second-least-recent entry of the path its current block, removes the last entry
  of the path, which is the least recent one, the common parent, and not the tip at its
  front, empties the path if fewer than \<open>THRESHOLD_FOR_FAST_SYNCING\<close> entries remain, and
  goes to PRE_EXEC_BLOCK_VALIDATION.
\<close>

theorem OnSynchronising_fork_next:
  assumes cur: "(case current_block c of None \<Rightarrow> chain_GetHeaviestBlock K w | Some b \<Rightarrow> Some b) = Some cur"
    and nonempty: "hash (body cur) \<noteq> []"
    and processed: "GENESIS_DIGEST K \<noteq> execution_LastProcessedBlock K w"
    and behind: "hash (body cur) \<noteq> execution_LastProcessedBlock K w"
    and lookup: "(if blocks_to_common_ancestor c = [] then
                    chain_GetPathToCommonAncestor K (hash (body cur)) (execution_LastProcessedBlock K w)
                      (COMMON_PATH_TO_ANCESTOR_LENGTH_LIMIT K) RETURN_LEAST_RECENT w
                  else (True, blocks_to_common_ancestor c)) = (True, path)"
    and len: "2 \<le> length path"
    and present: "storage_HashExists K (merkle_hash (body (last path)))
                      (block_number (body (last path))) w"
    and reverted: "storage_RevertToHash K (merkle_hash (body (last path)))
                      (block_number (body (last path))) w = (True, w1)"
    and dag_reverted: "(if dag c then dag_RevertToEpoch K (block_number (body (last path))) w1
                        else (True, w1)) = (True, w2)"
  shows "OnSynchronising K c w =
    Next PRE_EXEC_BLOCK_VALIDATION
      (c\<lparr>current_block := Some (last (butlast path)),
          blocks_to_common_ancestor :=
            (if length (butlast path) < THRESHOLD_FOR_FAST_SYNCING then [] else butlast path)\<rparr>)
      w2 None"
  using present reverted dag_reverted
  by (simp add: OnSynchronising_fork [OF cur nonempty processed behind lookup len]
        Synchronising_reconcile_def Let_def)

theorem OnSynchronising_fork_next_witness:
  "OnSynchronising fake fork_coordinator
     (fork_world\<lparr>fake_commits := [(digest32 129, 1)]\<rparr>) =
     Next PRE_EXEC_BLOCK_VALIDATION
       (fork_coordinator\<lparr>current_block := Some (fake_block 2 1 130 2)\<rparr>)
       (fork_world\<lparr>fake_commits := [(digest32 129, 1)], fake_current_hash := digest32 129\<rparr>) None"
  using OnSynchronising_fork_next
    [where K = fake and c = fork_coordinator
       and w = "fork_world\<lparr>fake_commits := [(digest32 129, 1)]\<rparr>"
       and cur = "fake_block 3 2 131 3" and path = fork_path
       and ?w1.0 = "fork_world\<lparr>fake_commits := [(digest32 129, 1)], fake_current_hash := digest32 129\<rparr>"
       and ?w2.0 = "fork_world\<lparr>fake_commits := [(digest32 129, 1)], fake_current_hash := digest32 129\<rparr>"]
  by (simp add: fake_def fork_coordinator_def fork_world_def fork_path_def fake_world_def
        fake_coordinator_def fake_block_def THRESHOLD_FOR_FAST_SYNCING_def)

text \<open>
  The claim that the tip is removed from the path fails on the long fork: after the step the
  path still starts with the tip, block 101, and the common parent, block 1, is gone.
\<close>

theorem OnSynchronising_pops_tip_counterexample:
  "OnSynchronising fake long_fork_coordinator long_fork_world =
     Next PRE_EXEC_BLOCK_VALIDATION
       (long_fork_coordinator
          \<lparr>current_block := Some (chain_block 2),
           blocks_to_common_ancestor :=
             chain_block 101 # map chain_block (rev [3..<101]) @ [chain_block 2]\<rparr>)
       (long_fork_world\<lparr>fake_current_hash := digest32 129\<rparr>) None
   \<and> chain_block 101 # map chain_block (rev [3..<101]) @ [chain_block 2] \<noteq> tl long_path"
proof
  have cur: "(case current_block long_fork_coordinator of
                None \<Rightarrow> chain_GetHeaviestBlock fake long_fork_world | Some b \<Rightarrow> Some b) =
             Some (chain_block 101)"
    by (simp add: long_fork_coordinator_def)
  have step: "OnSynchronising fake long_fork_coordinator long_fork_world =
      Synchronising_reconcile fake
        (long_fork_coordinator\<lparr>current_block := Some (chain_block 101),
                                blocks_to_common_ancestor := long_path\<rparr>) long_fork_world"
    by (rule OnSynchronising_fork [OF cur])
       (simp_all add: fake_def long_fork_coordinator_def long_fork_world_def fake_world_def
          fake_coordinator_def chain_block_def fake_block_def long_path_facts)
  show "OnSynchronising fake long_fork_coordinator long_fork_world =
     Next PRE_EXEC_BLOCK_VALIDATION
       (long_fork_coordinator
          \<lparr>current_block := Some (chain_block 2),
           blocks_to_common_ancestor :=
             chain_block 101 # map chain_block (rev [3..<101]) @ [chain_block 2]\<rparr>)
       (long_fork_world\<lparr>fake_current_hash := digest32 129\<rparr>) None"
    unfolding step
    by (simp add: Synchronising_reconcile_def long_path_facts THRESHOLD_FOR_FAST_SYNCING_def
          fake_def long_fork_coordinator_def long_fork_world_def fake_world_def
          fake_coordinator_def chain_block_def fake_block_def)
next
  have "last (chain_block 101 # map chain_block (rev [3..<101]) @ [chain_block 2]) = chain_block 2"
    by simp
  moreover have "last (tl long_path) = chain_block 1"
    by (simp add: long_path_facts)
  moreover have "chain_block 2 \<noteq> chain_block 1"
    by (simp add: chain_block_def fake_block_def)
  ultimately show "chain_block 101 # map chain_block (rev [3..<101]) @ [chain_block 2] \<noteq> tl long_path"
    by metis
qed

subsection \<open>Synergetic execution\<close>

text \<open>
  C4, as the code has it. In SYNERGETIC_EXECUTION, for a configured synergetic manager and a
  block whose parent is not the genesis digest: if the parent is not found in the chain, or
  the work queue cannot be prepared again, the machine goes to RESET and the block stays in
  the chain; if the work is not validated, the block is removed from the chain and the
  machine goes to RESET; otherwise it goes to SCHEDULE_BLOCK_EXECUTION.
\<close>

theorem OnSynergeticExecution_outcomes:
  assumes cur: "current_block c = Some cur"
    and not_genesis: "previous_hash (body cur) \<noteq> GENESIS_DIGEST K"
    and configured: "synergetic_exec_mgr c"
  shows "(chain_GetBlock K (previous_hash (body cur)) w = None \<longrightarrow>
            OnSynergeticExecution K c w = Next RESET c w None)
       \<and> (\<forall>previous_block status w1.
            chain_GetBlock K (previous_hash (body cur)) w = Some previous_block \<and>
            synergetic_PrepareWorkQueue K cur previous_block w = (status, w1) \<and>
            status \<noteq> SUCCESS \<longrightarrow>
            OnSynergeticExecution K c w = Next RESET c w1 None)
       \<and> (\<forall>previous_block w1 w2.
            chain_GetBlock K (previous_hash (body cur)) w = Some previous_block \<and>
            synergetic_PrepareWorkQueue K cur previous_block w = (SUCCESS, w1) \<and>
            synergetic_ValidateWorkAndUpdateState K (block_number (body cur)) (num_lanes c) w1 =
              (False, w2) \<longrightarrow>
            OnSynergeticExecution K c w =
              Next RESET c (chain_RemoveBlock K (hash (body cur)) w2) None)
       \<and> (\<forall>previous_block w1 w2.
            chain_GetBlock K (previous_hash (body cur)) w = Some previous_block \<and>
            synergetic_PrepareWorkQueue K cur previous_block w = (SUCCESS, w1) \<and>
            synergetic_ValidateWorkAndUpdateState K (block_number (body cur)) (num_lanes c) w1 =
              (True, w2) \<longrightarrow>
            OnSynergeticExecution K c w = Next SCHEDULE_BLOCK_EXECUTION c w2 None)"
  using assms by (simp add: OnSynergeticExecution_def)

theorem OnSynergeticExecution_outcomes_witness:
  "OnSynergeticExecution fake synergetic_coordinator (synergetic_world\<lparr>fake_chain := []\<rparr>) =
     Next RESET synergetic_coordinator (synergetic_world\<lparr>fake_chain := []\<rparr>) None
   \<and> OnSynergeticExecution fake synergetic_coordinator
       (synergetic_world\<lparr>fake_prepare := SynExecStatus_other 1\<rparr>) =
     Next RESET synergetic_coordinator (synergetic_world\<lparr>fake_prepare := SynExecStatus_other 1\<rparr>) None
   \<and> OnSynergeticExecution fake synergetic_coordinator (synergetic_world\<lparr>fake_validate := False\<rparr>) =
     Next RESET synergetic_coordinator
       (synergetic_world\<lparr>fake_validate := False, fake_chain := [fake_block 1 0 129 1]\<rparr>) None
   \<and> OnSynergeticExecution fake synergetic_coordinator synergetic_world =
     Next SCHEDULE_BLOCK_EXECUTION synergetic_coordinator synergetic_world None"
  using
    OnSynergeticExecution_outcomes
      [where K = fake and c = synergetic_coordinator and cur = "fake_block 2 1 130 2"
         and w = "synergetic_world\<lparr>fake_chain := []\<rparr>"]
    OnSynergeticExecution_outcomes
      [where K = fake and c = synergetic_coordinator and cur = "fake_block 2 1 130 2"
         and w = "synergetic_world\<lparr>fake_prepare := SynExecStatus_other 1\<rparr>"]
    OnSynergeticExecution_outcomes
      [where K = fake and c = synergetic_coordinator and cur = "fake_block 2 1 130 2"
         and w = "synergetic_world\<lparr>fake_validate := False\<rparr>"]
    OnSynergeticExecution_outcomes
      [where K = fake and c = synergetic_coordinator and cur = "fake_block 2 1 130 2"
         and w = synergetic_world]
  by (simp add: fake_def synergetic_coordinator_def synergetic_world_def fake_world_def
        fake_coordinator_def fake_block_def)

text \<open>
  The claim that every failure removes the block fails when the work queue cannot be
  prepared: the machine goes to RESET and the current block is still found in the chain.
\<close>

theorem OnSynergeticExecution_prepare_failure_counterexample:
  "OnSynergeticExecution fake synergetic_coordinator
     (synergetic_world\<lparr>fake_prepare := SynExecStatus_other 1\<rparr>) =
     Next RESET synergetic_coordinator (synergetic_world\<lparr>fake_prepare := SynExecStatus_other 1\<rparr>) None
   \<and> current_block synergetic_coordinator = Some (fake_block 2 1 130 2)
   \<and> chain_GetBlock fake (hash (body (fake_block 2 1 130 2)))
       (synergetic_world\<lparr>fake_prepare := SynExecStatus_other 1\<rparr>) = Some (fake_block 2 1 130 2)"
  by (simp add: OnSynergeticExecution_def fake_def synergetic_coordinator_def synergetic_world_def
        fake_world_def fake_coordinator_def fake_block_def)

subsection \<open>Minting\<close>

text \<open>
  C7. In SYNCHRONISED, when the heaviest block is still the current one, mining is on and
  enabled, the time of the next block has come and the stake manager, if there is one, lets
  this node generate, the coordinator builds the next block on the current one: previous hash
  the hash of the current block, block number one more, miner the mining address, weight the
  one the stake manager gives if there is one, DAG epoch the one the DAG creates for the new
  block number if there is one, proof target the configured difficulty. It drops the current
  block and goes to NEW_SYNERGETIC_EXECUTION.
\<close>

theorem OnSynchronised_mints:
  assumes cur: "current_block c = Some cur"
    and unchanged: "chain_GetHeaviestBlockHash K w = hash (body cur)"
    and mining_on: "mining c" "mining_enabled c"
    and due: "next_block_time c \<le> Clock_now K w"
    and permitted: "stake c \<longrightarrow> stake_ShouldGenerateBlock K cur (mining_address c) w"
  shows "\<exists>nxt w1.
      OnSynchronised K current previous c w =
        Next NEW_SYNERGETIC_EXECUTION (c\<lparr>next_block := Some nxt, current_block := None\<rparr>) w1 None
    \<and> previous_hash (body nxt) = hash (body cur)
    \<and> block_number (body nxt) = block_number (body cur) + 1
    \<and> miner (body nxt) = mining_address c
    \<and> weight nxt = (if stake c then stake_GetBlockGenerationWeight K cur (mining_address c) w
                     else weight (Block_default K))
    \<and> target (block_proof nxt) = block_difficulty c
    \<and> (dag_epoch (body nxt), w1) =
         (if dag c then dag_CreateEpoch K (block_number (body cur) + 1) w
          else (dag_epoch (body (Block_default K)), w))"
proof -
  obtain epoch w' where created:
    "dag_CreateEpoch K (block_number (body cur) + 1) w = (epoch, w')"
    by (cases "dag_CreateEpoch K (block_number (body cur) + 1) w")
  define b1 where "b1 = (Block_default K)\<lparr>body := (body (Block_default K))
      \<lparr>previous_hash := hash (body cur), block_number := block_number (body cur) + 1,
       miner := mining_address c\<rparr>\<rparr>"
  define b2 where "b2 = (if stake c then
      b1\<lparr>weight := stake_GetBlockGenerationWeight K cur (mining_address c) w\<rparr> else b1)"
  define b3 where "b3 = (if dag c then b2\<lparr>body := (body b2)\<lparr>dag_epoch := epoch\<rparr>\<rparr> else b2)"
  define b4 where "b4 = b3\<lparr>block_proof := SetTarget (block_difficulty c) (block_proof b3)\<rparr>"
  have step: "OnSynchronised K current previous c w =
      Next NEW_SYNERGETIC_EXECUTION (c\<lparr>next_block := Some b4, current_block := None\<rparr>)
        (if dag c then w' else w) None"
    unfolding OnSynchronised_def
    using cur unchanged mining_on due permitted created
    by (simp add: Let_def b1_def b2_def b3_def b4_def)
  have fields: "previous_hash (body b4) = hash (body cur)"
    "block_number (body b4) = block_number (body cur) + 1"
    "miner (body b4) = mining_address c"
    "weight b4 = (if stake c then stake_GetBlockGenerationWeight K cur (mining_address c) w
                  else weight (Block_default K))"
    "target (block_proof b4) = block_difficulty c"
    "dag_epoch (body b4) = (if dag c then epoch else dag_epoch (body (Block_default K)))"
    by (simp_all add: b1_def b2_def b3_def b4_def SetTarget_def)
  show ?thesis
    apply (rule exI [of _ b4])
    apply (rule exI [of _ "if dag c then w' else w"])
    using step fields created by simp
qed

theorem OnSynchronised_mints_witness:
  "\<exists>nxt.
     OnSynchronised fake SYNCHRONISED SYNCHRONISING minting_coordinator minting_world =
       Next NEW_SYNERGETIC_EXECUTION
         (minting_coordinator\<lparr>next_block := Some nxt, current_block := None\<rparr>) minting_world None
   \<and> previous_hash (body nxt) = digest32 3
   \<and> block_number (body nxt) = 4
   \<and> miner (body nxt) = [9]
   \<and> weight nxt = 7
   \<and> target (block_proof nxt) = 4
   \<and> dag_epoch (body nxt) = [4]"
  using OnSynchronised_mints
    [where K = fake and c = minting_coordinator and w = minting_world
       and cur = "fake_block 3 2 131 3" and current = SYNCHRONISED and previous = SYNCHRONISING]
  by (simp add: fake_def minting_coordinator_def minting_world_def fake_world_def
        fake_coordinator_def fake_block_def fake_default_block_def)

subsection \<open>Post-execution validation without a DAG\<close>

text \<open>
  C9. For a coordinator without a DAG, in POST_EXEC_BLOCK_VALIDATION, when the Merkle hash of
  a block whose parent is not the genesis digest does not match and the previous block is
  found in the chain, the handler calls \<open>RevertToEpoch\<close> through the null DAG pointer: the
  step yields the null dereference and no next state.
\<close>

theorem OnPostExecBlockValidation_null_dag:
  assumes "\<not> dag c"
    and "current_block c = Some cur"
    and "GENESIS_DIGEST K \<noteq> previous_hash (body cur)"
    and "storage_CurrentHash K w \<noteq> merkle_hash (body cur)"
    and "chain_GetBlock K (previous_hash (body cur)) w = Some previous_block"
  shows "OnPostExecBlockValidation K c w = Inl NullDereference"
  using assms by (simp add: OnPostExecBlockValidation_def)

theorem OnPostExecBlockValidation_null_dag_witness:
  "OnPostExecBlockValidation fake validating_coordinator mismatch_world = Inl NullDereference"
  using OnPostExecBlockValidation_null_dag
    [where K = fake and c = validating_coordinator and w = mismatch_world
       and cur = "fake_block 2 1 130 2" and previous_block = "fake_block 1 0 129 1"]
  by (simp add: fake_def validating_coordinator_def mismatch_world_def fake_world_def
        fake_coordinator_def fake_block_def)

subsection \<open>Transmission\<close>

text \<open>
  C10. In TRANSMIT_BLOCK, if \<open>AddBlock\<close> throws or returns anything but ADDED, the coordinator
  is left as it was, so the last executed block is unchanged, the collaborators are left as
  \<open>AddBlock\<close> left them, so no transaction status is updated and the block sink is not
  called, and the next state is RESET.
\<close>

theorem OnTransmitBlock_not_added:
  assumes "next_block c = Some nxt"
    and "chain_AddBlock K nxt w = (result, w1)"
    and "result \<noteq> Returns ADDED"
  shows "OnTransmitBlock K c w = Next RESET c w1 None"
  using assms
  by (simp add: OnTransmitBlock_def split: Outcome.splits BlockStatus.splits)

theorem OnTransmitBlock_not_added_witness:
  "OnTransmitBlock fake transmitting_coordinator (fake_world\<lparr>fake_add_result := Returns REJECTED\<rparr>) =
     Next RESET transmitting_coordinator (fake_world\<lparr>fake_add_result := Returns REJECTED\<rparr>) None
   \<and> OnTransmitBlock fake transmitting_coordinator
       (fake_world\<lparr>fake_add_result := Returns ALREADY_PRESENT\<rparr>) =
     Next RESET transmitting_coordinator (fake_world\<lparr>fake_add_result := Returns ALREADY_PRESENT\<rparr>) None
   \<and> OnTransmitBlock fake transmitting_coordinator (fake_world\<lparr>fake_add_result := Throws\<rparr>) =
     Next RESET transmitting_coordinator (fake_world\<lparr>fake_add_result := Throws\<rparr>) None"
  using
    OnTransmitBlock_not_added
      [where K = fake and c = transmitting_coordinator and nxt = "fake_block 4 3 132 4"
         and w = "fake_world\<lparr>fake_add_result := Returns REJECTED\<rparr>"
         and result = "Returns REJECTED"
         and ?w1.0 = "fake_world\<lparr>fake_add_result := Returns REJECTED\<rparr>"]
    OnTransmitBlock_not_added
      [where K = fake and c = transmitting_coordinator and nxt = "fake_block 4 3 132 4"
         and w = "fake_world\<lparr>fake_add_result := Returns ALREADY_PRESENT\<rparr>"
         and result = "Returns ALREADY_PRESENT"
         and ?w1.0 = "fake_world\<lparr>fake_add_result := Returns ALREADY_PRESENT\<rparr>"]
    OnTransmitBlock_not_added
      [where K = fake and c = transmitting_coordinator and nxt = "fake_block 4 3 132 4"
         and w = "fake_world\<lparr>fake_add_result := Throws\<rparr>"
         and result = Throws
         and ?w1.0 = "fake_world\<lparr>fake_add_result := Throws\<rparr>"]
  by (simp add: fake_def transmitting_coordinator_def fake_world_def fake_coordinator_def)

subsection \<open>The last executed block\<close>

























subsection \<open>Commits\<close>





subsection \<open>The bound on waiting for transactions\<close>

lemma WaitForTransactions_poll_result:
  assumes cur: "current_block c' = Some cur"
    and entry: "v = w \<or> (\<exists>txs. v = storage_IssueCallForMissingTxs K txs w)"
    and same: "pending_txs c' = pending_txs c" "dag c' = dag c"
  shows "\<exists>r. WaitForTransactions_poll K c' v = Inr r \<and> polled K cur c w r \<and>
           ((state r = WAIT_FOR_TRANSACTIONS \<and> (\<exists>txs. self r = c'\<lparr>pending_txs := Some txs\<rparr>)) \<or>
            (state r = SYNERGETIC_EXECUTION \<and> self r = c'\<lparr>pending_txs := None\<rparr>))"
proof -
  obtain ready w1 where dag:
    "(if dag c then dag_SatisfyEpoch K (dag_epoch (body cur)) v else (True, v)) = (ready, w1)"
    by (cases "if dag c then dag_SatisfyEpoch K (dag_epoch (body cur)) v else (True, v)")
  let ?missing = "{d \<in> pending_on_entry cur c. \<not> storage_HasTransaction K d w1}"
  let ?r = "if ?missing = {} \<and> ready
            then \<lparr>state = SYNERGETIC_EXECUTION, self = c'\<lparr>pending_txs := None\<rparr>, world = w1,
                  delay = None\<rparr>
            else \<lparr>state = WAIT_FOR_TRANSACTIONS, self = c'\<lparr>pending_txs := Some ?missing\<rparr>,
                  world = w1, delay = Some 200\<rparr>"
  have step: "WaitForTransactions_poll K c' v = Inr ?r"
    using cur same dag
    by (cases "pending_txs c"; cases "dag c")
       (auto simp add: WaitForTransactions_poll_def pending_on_entry_def Let_def)
  have "polled K cur c w ?r"
    unfolding polled_def
    apply (rule exI [of _ v])
    apply (rule exI [of _ ready])
    using entry dag by (auto split: if_splits)
  with step show ?thesis
    by (intro exI [of _ ?r]) auto
qed


lemma OnWaitForTransactions_first:
  assumes first: "previous \<noteq> WAIT_FOR_TRANSACTIONS"
    and cur: "current_block c = Some cur"
  shows "\<exists>r. OnWaitForTransactions K WAIT_FOR_TRANSACTIONS previous c w = Inr r \<and>
           polled K cur c w r \<and>
           (state r = WAIT_FOR_TRANSACTIONS \<longrightarrow>
              waiting cur (Clock_now K w) period (self r) (Clock_now K w))"
proof -
  let ?c = "c\<lparr>wait_before_asking_for_missing_tx :=
               Restart WAIT_BEFORE_ASKING_FOR_MISSING_TX_INTERVAL (Clock_now K w),
             have_asked_for_missing_txs := False\<rparr>"
  have step: "OnWaitForTransactions K WAIT_FOR_TRANSACTIONS previous c w =
              WaitForTransactions_poll K ?c w"
    using first by (simp add: OnWaitForTransactions_def)
  have "current_block ?c = Some cur" "pending_txs ?c = pending_txs c" "dag ?c = dag c"
    using cur by simp_all
  from WaitForTransactions_poll_result [OF this(1) _ this(2,3), of w w K]
  show ?thesis
    unfolding step
    by (auto simp add: waiting_def Restart_def cur WAIT_BEFORE_ASKING_FOR_MISSING_TX_INTERVAL_def)
qed

lemma OnWaitForTransactions_again:
  assumes inv: "waiting cur t0 period c t"
    and clock: "\<And>txs v. Clock_now K (storage_IssueCallForMissingTxs K txs v) = Clock_now K v"
    and later: "t \<le> Clock_now K w" "Clock_now K w \<le> t + period"
  shows "\<exists>r. OnWaitForTransactions K WAIT_FOR_TRANSACTIONS WAIT_FOR_TRANSACTIONS c w = Inr r \<and>
           ((polled K cur c w r \<and>
             (state r = WAIT_FOR_TRANSACTIONS \<longrightarrow> waiting cur t0 period (self r) (Clock_now K w))) \<or>
            (state r = RESET \<and> world r = chain_RemoveBlock K (hash (body cur)) w \<and>
             t0 + WAIT_BEFORE_ASKING_FOR_MISSING_TX_INTERVAL + WAIT_FOR_TX_TIMEOUT_INTERVAL
               \<le> Clock_now K w))"
proof -
  from inv have cur: "current_block c = Some cur"
    and before: "wait_before_asking_for_missing_tx c =
                   t0 + WAIT_BEFORE_ASKING_FOR_MISSING_TX_INTERVAL"
    by (simp_all add: waiting_def)
  from inv obtain txs where txs: "pending_txs c = Some txs"
    by (auto simp add: waiting_def)
  show ?thesis
  proof (cases "have_asked_for_missing_txs c")
    case True
    with inv have timeout:
      "t0 + WAIT_BEFORE_ASKING_FOR_MISSING_TX_INTERVAL + WAIT_FOR_TX_TIMEOUT_INTERVAL
         \<le> wait_for_tx_timeout c"
      "wait_for_tx_timeout c <
         t0 + WAIT_BEFORE_ASKING_FOR_MISSING_TX_INTERVAL + WAIT_FOR_TX_TIMEOUT_INTERVAL + period"
      by (simp_all add: waiting_def)
    show ?thesis
    proof (cases "HasExpired (wait_for_tx_timeout c) (Clock_now K w)")
      case expired: True
      have "OnWaitForTransactions K WAIT_FOR_TRANSACTIONS WAIT_FOR_TRANSACTIONS c w =
            Next RESET c (chain_RemoveBlock K (hash (body cur)) w) None"
        using True expired cur by (simp add: OnWaitForTransactions_def)
      moreover have "t0 + WAIT_BEFORE_ASKING_FOR_MISSING_TX_INTERVAL + WAIT_FOR_TX_TIMEOUT_INTERVAL
                       \<le> Clock_now K w"
        using expired timeout by (simp add: HasExpired_def)
      ultimately show ?thesis by simp
    next
      case running: False
      have step: "OnWaitForTransactions K WAIT_FOR_TRANSACTIONS WAIT_FOR_TRANSACTIONS c w =
                  WaitForTransactions_poll K c w"
        using True running by (simp add: OnWaitForTransactions_def)
      from WaitForTransactions_poll_result [OF cur, of w w K c]
      show ?thesis
        unfolding step using True running timeout before cur
        by (auto simp add: waiting_def HasExpired_def)
    qed
  next
    case False
    show ?thesis
    proof (cases "HasExpired (wait_before_asking_for_missing_tx c) (Clock_now K w)")
      case expired: True
      let ?w = "storage_IssueCallForMissingTxs K txs w"
      let ?c = "c\<lparr>have_asked_for_missing_txs := True,
                   wait_for_tx_timeout := Restart WAIT_FOR_TX_TIMEOUT_INTERVAL (Clock_now K ?w)\<rparr>"
      have step: "OnWaitForTransactions K WAIT_FOR_TRANSACTIONS WAIT_FOR_TRANSACTIONS c w =
                  WaitForTransactions_poll K ?c ?w"
        using False expired txs by (simp add: OnWaitForTransactions_def Let_def)
      have c: "current_block ?c = Some cur" "pending_txs ?c = pending_txs c" "dag ?c = dag c"
        using cur by simp_all
      have asked: "?w = w \<or> (\<exists>txs. ?w = storage_IssueCallForMissingTxs K txs w)"
        by blast
      from inv False have "t < t0 + WAIT_BEFORE_ASKING_FOR_MISSING_TX_INTERVAL"
        by (simp add: waiting_def)
      with later expired before have bounds:
        "t0 + WAIT_BEFORE_ASKING_FOR_MISSING_TX_INTERVAL \<le> Clock_now K w"
        "Clock_now K w < t0 + WAIT_BEFORE_ASKING_FOR_MISSING_TX_INTERVAL + period"
        by (simp_all add: HasExpired_def)
      from WaitForTransactions_poll_result [OF c(1) asked c(2,3)]
      show ?thesis
        unfolding step using bounds before cur
        by (auto simp add: waiting_def Restart_def clock WAIT_FOR_TX_TIMEOUT_INTERVAL_def)
    next
      case running: False
      have step: "OnWaitForTransactions K WAIT_FOR_TRANSACTIONS WAIT_FOR_TRANSACTIONS c w =
                  WaitForTransactions_poll K c w"
        using False running by (simp add: OnWaitForTransactions_def)
      from WaitForTransactions_poll_result [OF cur, of w w K c]
      show ?thesis
        unfolding step using False running before cur
        by (auto simp add: waiting_def HasExpired_def)
    qed
  qed
qed

lemma waiting_bound:
  "waiting cur t0 period c t \<Longrightarrow>
   t < t0 + WAIT_BEFORE_ASKING_FOR_MISSING_TX_INTERVAL + WAIT_FOR_TX_TIMEOUT_INTERVAL + period"
  by (auto simp add: waiting_def split: if_splits)

lemma OnWaitForTransactions_again_outcome:
  assumes inv: "waiting cur t0 period c t"
    and clock: "\<And>txs v. Clock_now K (storage_IssueCallForMissingTxs K txs v) = Clock_now K v"
    and later: "t \<le> Clock_now K w" "Clock_now K w \<le> t + period"
  shows "\<exists>r. OnWaitForTransactions K WAIT_FOR_TRANSACTIONS WAIT_FOR_TRANSACTIONS c w = Inr r \<and>
           wait_outcome K cur t0 period c w (Inr r) \<and>
           (state r = WAIT_FOR_TRANSACTIONS \<longrightarrow> waiting cur t0 period (self r) (Clock_now K w))"
proof -
  from OnWaitForTransactions_again [OF inv clock later] obtain r where
    r: "OnWaitForTransactions K WAIT_FOR_TRANSACTIONS WAIT_FOR_TRANSACTIONS c w = Inr r"
    and cases: "(polled K cur c w r \<and>
             (state r = WAIT_FOR_TRANSACTIONS \<longrightarrow> waiting cur t0 period (self r) (Clock_now K w))) \<or>
            (state r = RESET \<and> world r = chain_RemoveBlock K (hash (body cur)) w \<and>
             t0 + WAIT_BEFORE_ASKING_FOR_MISSING_TX_INTERVAL + WAIT_FOR_TX_TIMEOUT_INTERVAL
               \<le> Clock_now K w)"
    by blast
  from waiting_bound [OF inv] later have soon:
    "Clock_now K w <
       t0 + WAIT_BEFORE_ASKING_FOR_MISSING_TX_INTERVAL + WAIT_FOR_TX_TIMEOUT_INTERVAL + 2 * period"
    by simp
  from cases soon have "wait_outcome K cur t0 period c w (Inr r)"
    by (auto simp add: wait_outcome_def dest: waiting_bound)
  moreover from cases have
    "state r = WAIT_FOR_TRANSACTIONS \<longrightarrow> waiting cur t0 period (self r) (Clock_now K w)"
    by auto
  ultimately show ?thesis using r by blast
qed

lemma WaitForTransactions_run_again:
  assumes clock: "\<And>txs v. Clock_now K (storage_IssueCallForMissingTxs K txs v) = Clock_now K v"
  shows "waiting cur t0 period c t \<Longrightarrow> paced (Clock_now K) period t ws \<Longrightarrow>
         i < length (WaitForTransactions_run K WAIT_FOR_TRANSACTIONS c ws) \<Longrightarrow>
         wait_outcome K cur t0 period
           (fst (WaitForTransactions_run K WAIT_FOR_TRANSACTIONS c ws ! i)) (ws ! i)
           (snd (WaitForTransactions_run K WAIT_FOR_TRANSACTIONS c ws ! i))"
proof (induction ws arbitrary: c t i)
  case Nil
  then show ?case by simp
next
  case (Cons w ws)
  from Cons.prems(2) have later: "t \<le> Clock_now K w" "Clock_now K w \<le> t + period"
    and rest: "paced (Clock_now K) period (Clock_now K w) ws"
    by simp_all
  from OnWaitForTransactions_again_outcome [OF Cons.prems(1) clock later] obtain r where
    r: "OnWaitForTransactions K WAIT_FOR_TRANSACTIONS WAIT_FOR_TRANSACTIONS c w = Inr r"
    and out: "wait_outcome K cur t0 period c w (Inr r)"
    and inv: "state r = WAIT_FOR_TRANSACTIONS \<longrightarrow> waiting cur t0 period (self r) (Clock_now K w)"
    by blast
  show ?case
  proof (cases i)
    case 0
    with r out show ?thesis by simp
  next
    case (Suc j)
    with Cons.prems(3) r have stay: "state r = WAIT_FOR_TRANSACTIONS"
      and j: "j < length (WaitForTransactions_run K WAIT_FOR_TRANSACTIONS (self r) ws)"
      by (simp_all split: if_splits)
    from Cons.IH [OF inv [rule_format, OF stay] rest j] Suc r stay show ?thesis
      by simp
  qed
qed

lemma WaitForTransactions_run_again_exits:
  assumes clock: "\<And>txs v. Clock_now K (storage_IssueCallForMissingTxs K txs v) = Clock_now K v"
  shows "waiting cur t0 period c t \<Longrightarrow> paced (Clock_now K) period t ws \<Longrightarrow>
         k < length ws \<Longrightarrow>
         t0 + WAIT_BEFORE_ASKING_FOR_MISSING_TX_INTERVAL + WAIT_FOR_TX_TIMEOUT_INTERVAL + period
           \<le> Clock_now K (ws ! k) \<Longrightarrow>
         \<exists>j\<le>k. j < length (WaitForTransactions_run K WAIT_FOR_TRANSACTIONS c ws) \<and>
           (\<exists>r. snd (WaitForTransactions_run K WAIT_FOR_TRANSACTIONS c ws ! j) = Inr r \<and>
                state r \<noteq> WAIT_FOR_TRANSACTIONS)"
proof (induction ws arbitrary: c t k)
  case Nil
  then show ?case by simp
next
  case (Cons w ws)
  from Cons.prems(2) have later: "t \<le> Clock_now K w" "Clock_now K w \<le> t + period"
    and rest: "paced (Clock_now K) period (Clock_now K w) ws"
    by simp_all
  from OnWaitForTransactions_again_outcome [OF Cons.prems(1) clock later] obtain r where
    r: "OnWaitForTransactions K WAIT_FOR_TRANSACTIONS WAIT_FOR_TRANSACTIONS c w = Inr r"
    and out: "wait_outcome K cur t0 period c w (Inr r)"
    and inv: "state r = WAIT_FOR_TRANSACTIONS \<longrightarrow> waiting cur t0 period (self r) (Clock_now K w)"
    by blast
  show ?case
  proof (cases "state r = WAIT_FOR_TRANSACTIONS")
    case False
    with r show ?thesis
      by (intro exI [of _ 0]) simp
  next
    case True
    with out have early: "Clock_now K w <
        t0 + WAIT_BEFORE_ASKING_FOR_MISSING_TX_INTERVAL + WAIT_FOR_TX_TIMEOUT_INTERVAL + period"
      by (simp add: wait_outcome_def)
    with Cons.prems(4) obtain k' where k: "k = Suc k'"
      by (cases k) auto
    with Cons.prems(3,4) have k': "k' < length ws"
      "t0 + WAIT_BEFORE_ASKING_FOR_MISSING_TX_INTERVAL + WAIT_FOR_TX_TIMEOUT_INTERVAL + period
         \<le> Clock_now K (ws ! k')"
      by simp_all
    from Cons.IH [OF inv [rule_format, OF True] rest k'] obtain j where
      "j \<le> k'" "j < length (WaitForTransactions_run K WAIT_FOR_TRANSACTIONS (self r) ws)"
      "\<exists>r'. snd (WaitForTransactions_run K WAIT_FOR_TRANSACTIONS (self r) ws ! j) = Inr r' \<and>
            state r' \<noteq> WAIT_FOR_TRANSACTIONS"
      by blast
    with r True k show ?thesis
      by (intro exI [of _ "Suc j"]) simp
  qed
qed

text \<open>
  C6, as the code has it. Take a run that enters WAIT_FOR_TRANSACTIONS from another state with
  a current block, whose entries are paced with a period, the clock standing still while the
  handler asks for the missing transactions. Every entry of the run results in a state. An
  entry goes on to SYNERGETIC_EXECUTION, with the pending set dropped, exactly when it has
  polled and every transaction it looked for is in the storage and the DAG, if there is one,
  says that the epoch of the block is satisfied; otherwise an entry that has polled stays,
  with the missing transactions as its pending set. The run stays in WAIT_FOR_TRANSACTIONS
  only at entries earlier than WAIT_BEFORE_ASKING_FOR_MISSING_TX_INTERVAL +
  WAIT_FOR_TX_TIMEOUT_INTERVAL + one period after the first entry, and it leaves the state, at
  the latest at the first entry at or after that time, earlier than the two intervals and two
  periods after the first entry: for SYNERGETIC_EXECUTION, or for RESET with the block
  removed from the chain, and this not before the two intervals have passed.
\<close>

theorem WaitForTransactions_exits:
  assumes first: "previous \<noteq> WAIT_FOR_TRANSACTIONS"
    and cur: "current_block c = Some cur"
    and clock: "\<And>txs v. Clock_now K (storage_IssueCallForMissingTxs K txs v) = Clock_now K v"
    and paced: "paced (Clock_now K) period (Clock_now K w0) ws"
  shows "(\<forall>i < length (WaitForTransactions_run K previous c (w0 # ws)).
            wait_outcome K cur (Clock_now K w0) period
              (fst (WaitForTransactions_run K previous c (w0 # ws) ! i)) ((w0 # ws) ! i)
              (snd (WaitForTransactions_run K previous c (w0 # ws) ! i)))
       \<and> (\<forall>k < length (w0 # ws).
            Clock_now K w0 + WAIT_BEFORE_ASKING_FOR_MISSING_TX_INTERVAL +
              WAIT_FOR_TX_TIMEOUT_INTERVAL + period \<le> Clock_now K ((w0 # ws) ! k) \<longrightarrow>
            (\<exists>j\<le>k. j < length (WaitForTransactions_run K previous c (w0 # ws)) \<and>
               (\<exists>r. snd (WaitForTransactions_run K previous c (w0 # ws) ! j) = Inr r \<and>
                    state r \<noteq> WAIT_FOR_TRANSACTIONS)))"
proof -
  from OnWaitForTransactions_first [OF first cur, of K w0 period] obtain r where
    r: "OnWaitForTransactions K WAIT_FOR_TRANSACTIONS previous c w0 = Inr r"
    and polled: "polled K cur c w0 r"
    and stays: "state r = WAIT_FOR_TRANSACTIONS \<longrightarrow>
                 waiting cur (Clock_now K w0) period (self r) (Clock_now K w0)"
    by blast
  have early: "Clock_now K w0 <
      Clock_now K w0 + WAIT_BEFORE_ASKING_FOR_MISSING_TX_INTERVAL + WAIT_FOR_TX_TIMEOUT_INTERVAL +
      period"
    by (simp add: WAIT_BEFORE_ASKING_FOR_MISSING_TX_INTERVAL_def)
  have out: "wait_outcome K cur (Clock_now K w0) period c w0 (Inr r)"
    using polled by (simp add: wait_outcome_def WAIT_BEFORE_ASKING_FOR_MISSING_TX_INTERVAL_def)
  have run: "WaitForTransactions_run K previous c (w0 # ws) =
      (c, Inr r) # (if state r = WAIT_FOR_TRANSACTIONS
               then WaitForTransactions_run K WAIT_FOR_TRANSACTIONS (self r) ws else [])"
    by (simp add: r)
  show ?thesis
  proof (cases "state r = WAIT_FOR_TRANSACTIONS")
    case False
    with out show ?thesis
      unfolding run by (auto intro: exI [of _ 0])
  next
    case True
    with stays have inv: "waiting cur (Clock_now K w0) period (self r) (Clock_now K w0)"
      by simp
    have one: "wait_outcome K cur (Clock_now K w0) period
                 (fst (WaitForTransactions_run K previous c (w0 # ws) ! i)) ((w0 # ws) ! i)
                 (snd (WaitForTransactions_run K previous c (w0 # ws) ! i))"
      if "i < length (WaitForTransactions_run K previous c (w0 # ws))" for i
    proof (cases i)
      case 0
      with out show ?thesis unfolding run by simp
    next
      case (Suc j)
      with that True have "j < length (WaitForTransactions_run K WAIT_FOR_TRANSACTIONS (self r) ws)"
        unfolding run by simp
      from WaitForTransactions_run_again [OF clock inv paced this] Suc True show ?thesis
        unfolding run by simp
    qed
    have two: "\<exists>j\<le>k. j < length (WaitForTransactions_run K previous c (w0 # ws)) \<and>
               (\<exists>r. snd (WaitForTransactions_run K previous c (w0 # ws) ! j) = Inr r \<and>
                    state r \<noteq> WAIT_FOR_TRANSACTIONS)"
      if k: "k < length (w0 # ws)"
        and late: "Clock_now K w0 + WAIT_BEFORE_ASKING_FOR_MISSING_TX_INTERVAL +
              WAIT_FOR_TX_TIMEOUT_INTERVAL + period \<le> Clock_now K ((w0 # ws) ! k)" for k
    proof -
      from late early obtain k' where k': "k = Suc k'"
        by (cases k) auto
      with k late have "k' < length ws"
        "Clock_now K w0 + WAIT_BEFORE_ASKING_FOR_MISSING_TX_INTERVAL +
              WAIT_FOR_TX_TIMEOUT_INTERVAL + period \<le> Clock_now K (ws ! k')"
        by simp_all
      from WaitForTransactions_run_again_exits [OF clock inv paced this] obtain j where
        "j \<le> k'" "j < length (WaitForTransactions_run K WAIT_FOR_TRANSACTIONS (self r) ws)"
        "\<exists>r'. snd (WaitForTransactions_run K WAIT_FOR_TRANSACTIONS (self r) ws ! j) = Inr r' \<and>
              state r' \<noteq> WAIT_FOR_TRANSACTIONS"
        by blast
      with True k' show ?thesis
        unfolding run by (intro exI [of _ "Suc j"]) simp
    qed
    from one two show ?thesis by blast
  qed
qed

lemma slow_run:
  "map (map_sum id state \<circ> snd)
     (WaitForTransactions_run fake PRE_EXEC_BLOCK_VALIDATION validating_coordinator
        (entry_at 0 # slow_entries)) =
   [Inr WAIT_FOR_TRANSACTIONS, Inr WAIT_FOR_TRANSACTIONS, Inr WAIT_FOR_TRANSACTIONS,
    Inr WAIT_FOR_TRANSACTIONS, Inr WAIT_FOR_TRANSACTIONS, Inr WAIT_FOR_TRANSACTIONS,
    Inr WAIT_FOR_TRANSACTIONS, Inr WAIT_FOR_TRANSACTIONS, Inr WAIT_FOR_TRANSACTIONS,
    Inr WAIT_FOR_TRANSACTIONS, Inr RESET]"
  by (simp add: slow_entries_def entry_at_def OnWaitForTransactions_def
        WaitForTransactions_poll_def HasExpired_def Restart_def
        WAIT_BEFORE_ASKING_FOR_MISSING_TX_INTERVAL_def WAIT_FOR_TX_TIMEOUT_INTERVAL_def
        fake_def validating_coordinator_def mismatch_world_def fake_world_def
        fake_coordinator_def fake_block_def Let_def ex_disj_distrib all_conj_distrib)

lemma slow_run_length:
  "length (WaitForTransactions_run fake PRE_EXEC_BLOCK_VALIDATION validating_coordinator
             (entry_at 0 # slow_entries)) = 11"
  using arg_cong [OF slow_run, of length] by simp

lemma slow_entries_paced:
  "paced (Clock_now fake) 7000 (Clock_now fake (entry_at 0)) slow_entries"
  by (simp add: slow_entries_def entry_at_def fake_def)

lemma arrived_run:
  "map (map_sum id state \<circ> snd)
     (WaitForTransactions_run fake PRE_EXEC_BLOCK_VALIDATION validating_coordinator
        [arrived_world]) = [Inr SYNERGETIC_EXECUTION]"
  by (simp add: arrived_world_def OnWaitForTransactions_def
        WaitForTransactions_poll_def HasExpired_def Restart_def
        fake_def validating_coordinator_def mismatch_world_def fake_world_def
        fake_coordinator_def fake_block_def Let_def ex_disj_distrib all_conj_distrib)
     blast

theorem WaitForTransactions_exits_witness:
  "wait_outcome fake (fake_block 2 1 130 2) 0 7000
     (fst (WaitForTransactions_run fake PRE_EXEC_BLOCK_VALIDATION validating_coordinator
             (entry_at 0 # slow_entries) ! 10))
     (entry_at 70000)
     (snd (WaitForTransactions_run fake PRE_EXEC_BLOCK_VALIDATION validating_coordinator
             (entry_at 0 # slow_entries) ! 10))
   \<and> (\<exists>j\<le>10.
        j < length (WaitForTransactions_run fake PRE_EXEC_BLOCK_VALIDATION validating_coordinator
                      (entry_at 0 # slow_entries)) \<and>
        (\<exists>r. snd (WaitForTransactions_run fake PRE_EXEC_BLOCK_VALIDATION validating_coordinator
                     (entry_at 0 # slow_entries) ! j) = Inr r \<and>
             state r \<noteq> WAIT_FOR_TRANSACTIONS))
   \<and> wait_outcome fake (fake_block 2 1 130 2) 1000 7000
       (fst (WaitForTransactions_run fake PRE_EXEC_BLOCK_VALIDATION validating_coordinator
               [arrived_world] ! 0))
       arrived_world
       (snd (WaitForTransactions_run fake PRE_EXEC_BLOCK_VALIDATION validating_coordinator
               [arrived_world] ! 0))
   \<and> map (map_sum id state \<circ> snd)
       (WaitForTransactions_run fake PRE_EXEC_BLOCK_VALIDATION validating_coordinator
          [arrived_world]) = [Inr SYNERGETIC_EXECUTION]"
proof -
  have cur: "current_block validating_coordinator = Some (fake_block 2 1 130 2)"
    by (simp add: validating_coordinator_def)
  have clock: "Clock_now fake (storage_IssueCallForMissingTxs fake txs v) = Clock_now fake v"
    for txs v
    by (simp add: fake_def)
  have t0: "Clock_now fake (entry_at 0) = 0"
    by (simp add: entry_at_def fake_def)
  have last: "(entry_at 0 # slow_entries) ! 10 = entry_at 70000"
    by (simp add: slow_entries_def)
  have late: "Clock_now fake (entry_at 70000) = 70000"
    by (simp add: entry_at_def fake_def)
  have first: "PRE_EXEC_BLOCK_VALIDATION \<noteq> WAIT_FOR_TRANSACTIONS"
    by simp
  have i: "10 < length (WaitForTransactions_run fake PRE_EXEC_BLOCK_VALIDATION
                          validating_coordinator (entry_at 0 # slow_entries))"
    unfolding slow_run_length by simp
  have k: "10 < length (entry_at 0 # slow_entries)"
    by (simp add: slow_entries_def)
  have bound: "Clock_now fake (entry_at 0) + WAIT_BEFORE_ASKING_FOR_MISSING_TX_INTERVAL +
                 WAIT_FOR_TX_TIMEOUT_INTERVAL + 7000
               \<le> Clock_now fake ((entry_at 0 # slow_entries) ! 10)"
    unfolding last t0 late
    by (simp add: WAIT_BEFORE_ASKING_FOR_MISSING_TX_INTERVAL_def WAIT_FOR_TX_TIMEOUT_INTERVAL_def)
  note exits = WaitForTransactions_exits [OF first cur clock slow_entries_paced]
  from exits [THEN conjunct1, rule_format, OF i]
  have one: "wait_outcome fake (fake_block 2 1 130 2) 0 7000
     (fst (WaitForTransactions_run fake PRE_EXEC_BLOCK_VALIDATION validating_coordinator
             (entry_at 0 # slow_entries) ! 10))
     (entry_at 70000)
     (snd (WaitForTransactions_run fake PRE_EXEC_BLOCK_VALIDATION validating_coordinator
             (entry_at 0 # slow_entries) ! 10))"
    unfolding t0 last .
  from exits [THEN conjunct2, rule_format, OF k bound]
  have two: "\<exists>j\<le>10.
        j < length (WaitForTransactions_run fake PRE_EXEC_BLOCK_VALIDATION validating_coordinator
                      (entry_at 0 # slow_entries)) \<and>
        (\<exists>r. snd (WaitForTransactions_run fake PRE_EXEC_BLOCK_VALIDATION validating_coordinator
                     (entry_at 0 # slow_entries) ! j) = Inr r \<and>
             state r \<noteq> WAIT_FOR_TRANSACTIONS)" .
  have t1: "Clock_now fake arrived_world = 1000"
    by (simp add: arrived_world_def mismatch_world_def fake_world_def fake_def)
  have none: "paced (Clock_now fake) 7000 (Clock_now fake arrived_world) []"
    by simp
  have i': "0 < length (WaitForTransactions_run fake PRE_EXEC_BLOCK_VALIDATION
                          validating_coordinator [arrived_world])"
    using arg_cong [OF arrived_run, of length] by simp
  from WaitForTransactions_exits [OF first cur clock none, THEN conjunct1, rule_format, OF i']
  have three: "wait_outcome fake (fake_block 2 1 130 2) 1000 7000
       (fst (WaitForTransactions_run fake PRE_EXEC_BLOCK_VALIDATION validating_coordinator
               [arrived_world] ! 0))
       arrived_world
       (snd (WaitForTransactions_run fake PRE_EXEC_BLOCK_VALIDATION validating_coordinator
               [arrived_world] ! 0))"
    unfolding t1 nth_Cons_0 .
  from one two three arrived_run show ?thesis
    by (intro conjI)
qed

text \<open>
  The claim that the state is left within the two intervals and one period fails on the run
  that is entered every seven seconds: it asks at 35 s, still stays at 63 s, and leaves only
  at 70 s, later than 30 s + 30 s + 7 s.
\<close>

theorem WaitForTransactions_one_period_counterexample:
  "map (map_sum id state \<circ> snd)
     (WaitForTransactions_run fake PRE_EXEC_BLOCK_VALIDATION validating_coordinator
        (entry_at 0 # slow_entries)) =
   [Inr WAIT_FOR_TRANSACTIONS, Inr WAIT_FOR_TRANSACTIONS, Inr WAIT_FOR_TRANSACTIONS,
    Inr WAIT_FOR_TRANSACTIONS, Inr WAIT_FOR_TRANSACTIONS, Inr WAIT_FOR_TRANSACTIONS,
    Inr WAIT_FOR_TRANSACTIONS, Inr WAIT_FOR_TRANSACTIONS, Inr WAIT_FOR_TRANSACTIONS,
    Inr WAIT_FOR_TRANSACTIONS, Inr RESET]
   \<and> map (Clock_now fake) (entry_at 0 # slow_entries) =
     [0, 7000, 14000, 21000, 28000, 35000, 42000, 49000, 56000, 63000, 70000]
   \<and> 0 + WAIT_BEFORE_ASKING_FOR_MISSING_TX_INTERVAL + WAIT_FOR_TX_TIMEOUT_INTERVAL + 7000 < 70000"
  using slow_run
  by (simp add: slow_entries_def entry_at_def fake_def
        WAIT_BEFORE_ASKING_FOR_MISSING_TX_INTERVAL_def WAIT_FOR_TX_TIMEOUT_INTERVAL_def)

end
